theory Spec2Isabelle
  imports Main "HOL-Library.Sublist"
begin

section \<open>JavaScript strings\<close>

text \<open>
  A JavaScript string is modelled as a \<open>string\<close>, one \<open>char\<close> per code unit. The
  model therefore covers texts whose code units are below 256; every literal of the
  scripts that takes part in a decision (keywords, tokens, option labels, path
  fragments) is ASCII.
\<close>

definition nl :: char where
  "nl = CHR 0x0A"

definition backslash :: char where
  "backslash = CHR 0x5C"

text \<open>
  The white space of \<open>\s\<close>, of \<open>String.prototype.trim\<close> and of \<open>parseInt\<close>:
  TAB, LF, VT, FF, CR, SPACE and NBSP are the members below 256.
\<close>

definition isSpace :: "char \<Rightarrow> bool" where
  "isSpace c \<longleftrightarrow> c = CHR 0x09 \<or> c = CHR 0x0A \<or> c = CHR 0x0B \<or> c = CHR 0x0C
     \<or> c = CHR 0x0D \<or> c = CHR 0x20 \<or> c = CHR 0xA0"

text \<open>The digits are the code units 48 to 57, \<open>A-Z\<close> 65 to 90, \<open>a-z\<close> 97 to 122.\<close>

definition isDigit :: "char \<Rightarrow> bool" where
  "isDigit c \<longleftrightarrow> 48 \<le> (of_char c :: nat) \<and> (of_char c :: nat) \<le> 57"

definition isUpper :: "char \<Rightarrow> bool" where
  "isUpper c \<longleftrightarrow> 65 \<le> (of_char c :: nat) \<and> (of_char c :: nat) \<le> 90"

definition isLower :: "char \<Rightarrow> bool" where
  "isLower c \<longleftrightarrow> 97 \<le> (of_char c :: nat) \<and> (of_char c :: nat) \<le> 122"

text \<open>The class \<open>\w\<close> is \<open>[A-Za-z0-9_]\<close>.\<close>

definition isWord :: "char \<Rightarrow> bool" where
  "isWord c \<longleftrightarrow> isUpper c \<or> isLower c \<or> isDigit c \<or> c = CHR ''_''"

text \<open>\<open>s.trim()\<close>\<close>

definition trim :: "string \<Rightarrow> string" where
  "trim s = rev (dropWhile isSpace (rev (dropWhile isSpace s)))"

text \<open>\<open>s.startsWith(p)\<close> is \<open>prefix p s\<close>; \<open>s.includes(p)\<close> scans every position.\<close>

fun includes_str :: "string \<Rightarrow> string \<Rightarrow> bool" where
  "includes_str [] p = (p = [])"
| "includes_str (c # cs) p = (prefix p (c # cs) \<or> includes_str cs p)"

text \<open>\<open>s.split(sep)\<close> for a one-character separator; the result is never empty.\<close>

fun split_str :: "char \<Rightarrow> string \<Rightarrow> string list" where
  "split_str sep [] = [[]]"
| "split_str sep (c # cs) =
     (if c = sep then [] # split_str sep cs
      else (case split_str sep cs of [] \<Rightarrow> [[c]] | w # ws \<Rightarrow> (c # w) # ws))"

section \<open>The setup wizard: reading a number, choosing an option\<close>

text \<open>
  \<open>parseInt(s)\<close> with no radix: leading white space is skipped, one sign is read, a
  \<open>0x\<close> or \<open>0X\<close> prefix switches to radix 16, and the longest run of digits is the
  value; no digit gives \<open>NaN\<close>, which is \<open>None\<close> here. The result is the
  mathematical integer (a JavaScript number rounds it above \<open>2^53\<close>, which keeps
  every comparison with a list length).
\<close>

definition digitValue :: "char \<Rightarrow> nat" where
  "digitValue c =
     (if isDigit c then of_char c - 48
      else if isLower c then of_char c - 87
      else of_char c - 55)"

definition isRadixDigit :: "nat \<Rightarrow> char \<Rightarrow> bool" where
  "isRadixDigit radix c \<longleftrightarrow>
     (isDigit c \<or> isLower c \<or> isUpper c) \<and> digitValue c < radix"

definition digitsValue :: "nat \<Rightarrow> string \<Rightarrow> nat" where
  "digitsValue radix ds = foldl (\<lambda>acc c. acc * radix + digitValue c) 0 ds"

definition parseInt :: "string \<Rightarrow> int option" where
  "parseInt inputString =
     (let s = dropWhile isSpace inputString;
          negative = (case s of [] \<Rightarrow> False | c # _ \<Rightarrow> c = CHR ''-'');
          s1 = (case s of [] \<Rightarrow> []
                | c # r \<Rightarrow> if c = CHR ''+'' \<or> c = CHR ''-'' then r else s);
          hex = (case s1 of c # x # _ \<Rightarrow> c = CHR ''0'' \<and> (x = CHR ''x'' \<or> x = CHR ''X'')
                 | _ \<Rightarrow> False);
          radix = (if hex then 16 else 10);
          s2 = (if hex then drop 2 s1 else s1);
          z = takeWhile (isRadixDigit radix) s2
      in if z = [] then None
         else Some (if negative then - int (digitsValue radix z)
                    else int (digitsValue radix z)))"

text \<open>\<open>xs[0]\<close>: \<open>undefined\<close> on an empty array.\<close>

definition first :: "'a list \<Rightarrow> 'a option" where
  "first xs = (case xs of [] \<Rightarrow> None | x # _ \<Rightarrow> Some x)"

text \<open>
  \<open>selectOption\<close> after the answer has been read: \<open>index = parseInt(answer) - 1\<close>,
  the option at \<open>index\<close> when \<open>index >= 0 && index < options.length\<close>, and
  \<open>options[0]\<close> otherwise (\<open>NaN\<close> fails both comparisons).
\<close>

definition selectOption :: "string list \<Rightarrow> string \<Rightarrow> string option" where
  "selectOption options answer =
     (case parseInt answer of
        None \<Rightarrow> first options
      | Some k \<Rightarrow>
          (let index = k - 1
           in if index \<ge> 0 \<and> index < int (length options)
              then Some (options ! nat index)
              else first options))"

section \<open>The setup wizard: values, prompts and the configuration\<close>

text \<open>
  The objects the wizard builds. An object is the list of its properties in the order
  in which JavaScript enumerates them (\<open>Object.values\<close>, \<open>JSON.stringify\<close>, the
  spread). For keys that are not array indices, and the wizard has no other, that is
  the order of insertion; an object with integer-like keys is to be listed with those
  first, in ascending order. \<open>NaN\<close> is what \<open>parseInt\<close> gives for a threshold that is
  not a number. A property that is absent reads as \<open>undefined\<close>, which is \<open>None\<close>.
\<close>

datatype jsval = Str string | Num int | NaN | Bool bool | Obj "(string \<times> jsval) list"

fun getProp :: "string \<Rightarrow> jsval \<Rightarrow> jsval option" where
  "getProp k (Obj kvs) = map_of kvs k"
| "getProp k _ = None"

text \<open>
  \<open>obj[k] = v\<close> for a key that is not an array index: an existing property keeps its
  place, a new one goes last.
\<close>

fun setProp :: "string \<Rightarrow> jsval \<Rightarrow> (string \<times> jsval) list \<Rightarrow> (string \<times> jsval) list" where
  "setProp k v [] = [(k, v)]"
| "setProp k v ((k', v') # kvs) =
     (if k' = k then (k, v) # kvs else (k', v') # setProp k v kvs)"

text \<open>The object spread \<open>{ ...fields, ...more }\<close>.\<close>

definition spread :: "(string \<times> jsval) list \<Rightarrow> (string \<times> jsval) list \<Rightarrow> (string \<times> jsval) list" where
  "spread fields more = foldl (\<lambda>acc kv. setProp (fst kv) (snd kv) acc) fields more"

text \<open>\<open>Object.values(v)\<close> for a value that is not \<open>undefined\<close>.\<close>

fun objectValues :: "jsval \<Rightarrow> jsval list" where
  "objectValues (Obj kvs) = map snd kvs"
| "objectValues (Str s) = map (\<lambda>c. Str [c]) s"
| "objectValues _ = []"

fun truthy :: "jsval option \<Rightarrow> bool" where
  "truthy None = False"
| "truthy (Some (Str s)) = (s \<noteq> [])"
| "truthy (Some (Num n)) = (n \<noteq> 0)"
| "truthy (Some NaN) = False"
| "truthy (Some (Bool b)) = b"
| "truthy (Some (Obj kvs)) = True"

text \<open>Decimal digits of a number, for template literals.\<close>

fun showNat :: "nat \<Rightarrow> string" where
  "showNat n =
     (if n < 10 then [char_of (48 + n)]
      else showNat (n div 10) @ [char_of (48 + n mod 10)])"

definition showInt :: "int \<Rightarrow> string" where
  "showInt i = (if i < 0 then CHR ''-'' # showNat (nat (- i)) else showNat (nat i))"

text \<open>
  \<open>`${v}`\<close>: the string of a value inside a template literal (numbers in plain
  decimal, which is what JavaScript prints below \<open>10^21\<close>).
\<close>

fun toStr :: "jsval option \<Rightarrow> string" where
  "toStr None = ''undefined''"
| "toStr (Some (Str s)) = s"
| "toStr (Some (Num n)) = showInt n"
| "toStr (Some NaN) = ''NaN''"
| "toStr (Some (Bool b)) = (if b then ''true'' else ''false'')"
| "toStr (Some (Obj kvs)) = ''[object Object]''"

text \<open>
  \<open>toLowerCase\<close> on code units below 256: \<open>A-Z\<close> and the Latin-1 capitals move up
  by 32.
\<close>

definition toLowerChar :: "char \<Rightarrow> char" where
  "toLowerChar c =
     (let n = (of_char c :: nat)
      in if (65 \<le> n \<and> n \<le> 90) \<or> (192 \<le> n \<and> n \<le> 222 \<and> n \<noteq> 215)
         then char_of (n + 32) else c)"

definition toLowerCase :: "string \<Rightarrow> string" where
  "toLowerCase s = map toLowerChar s"

text \<open>
  \<open>toUpperCase\<close> on code units below 256: \<open>a-z\<close> and the Latin-1 small letters move
  down by 32, and the sharp s (223) becomes \<open>SS\<close>. The capitals of the micro sign (181)
  and of y with diaeresis (255) lie above 255; the model leaves these two as they are.
\<close>

definition toUpperChar :: "char \<Rightarrow> string" where
  "toUpperChar c =
     (let n = (of_char c :: nat)
      in if (97 \<le> n \<and> n \<le> 122) \<or> (224 \<le> n \<and> n \<le> 254 \<and> n \<noteq> 247)
         then [char_of (n - 32)]
         else if n = 223 then ''SS'' else [c])"

definition toUpperCase :: "string \<Rightarrow> string" where
  "toUpperCase s = concat (map toUpperChar s)"

text \<open>\<open>s.split(' ')[0]\<close>: the text before the first space.\<close>

definition firstWord :: "string \<Rightarrow> string" where
  "firstWord s = takeWhile (\<lambda>c. c \<noteq> CHR '' '') s"

text \<open>\<open>a || b\<close> on strings: an empty answer takes the default.\<close>

definition orElse :: "string \<Rightarrow> string \<Rightarrow> string" where
  "orElse a b = (if a = [] then b else a)"

subsection \<open>Reading the scripted answers\<close>

text \<open>
  The wizard reads its answers one line at a time. A step takes the answers not yet
  read and gives its result with the answers left; \<open>None\<close> is a wizard that does not
  complete (the input ends before a question is answered, or an exception reaches the
  \<open>catch\<close> of \<open>main\<close>), in which case nothing more is written.
\<close>

type_synonym 'a wizard = "string list \<Rightarrow> ('a \<times> string list) option"

definition wreturn :: "'a \<Rightarrow> 'a wizard" where
  "wreturn x = (\<lambda>answers. Some (x, answers))"

definition wbind :: "'a wizard \<Rightarrow> ('a \<Rightarrow> 'b wizard) \<Rightarrow> 'b wizard" where
  "wbind m f = (\<lambda>answers. case m answers of None \<Rightarrow> None | Some (x, rest) \<Rightarrow> f x rest)"

definition wthrow :: "'a wizard" where
  "wthrow = (\<lambda>answers. None)"

text \<open>\<open>await question(query)\<close>: the next answer; the query is only printed.\<close>

definition question :: "string \<Rightarrow> string wizard" where
  "question query = (\<lambda>answers. case answers of [] \<Rightarrow> None | a # rest \<Rightarrow> Some (a, rest))"

text \<open>
  \<open>await selectOption(prompt, options)\<close>. Every list \<open>main\<close> passes is a non-empty
  literal, so the \<open>undefined\<close> of an empty list never arises there; the model stops
  the wizard on it, as the \<open>split\<close> of \<open>undefined\<close> that follows in \<open>main\<close> would.
\<close>

definition askOption :: "string \<Rightarrow> string list \<Rightarrow> string wizard" where
  "askOption prompt options =
     wbind (question ''Select (number): '')
       (\<lambda>answer. case selectOption options answer of None \<Rightarrow> wthrow | Some v \<Rightarrow> wreturn v)"

text \<open>\<open>confirm\<close> after the answer has been read.\<close>

definition confirm :: "bool \<Rightarrow> string \<Rightarrow> bool" where
  "confirm defaultValue answer =
     (if answer = [] then defaultValue
      else toLowerCase answer = ''y'' \<or> toLowerCase answer = ''yes'')"

definition askConfirm :: "string \<Rightarrow> bool \<Rightarrow> bool wizard" where
  "askConfirm prompt defaultValue =
     wbind (question prompt) (\<lambda>answer. wreturn (confirm defaultValue answer))"

text \<open>\<open>getProviderConfig\<close>: the switch on the first word of the chosen option.\<close>

definition getProviderConfig :: "string \<Rightarrow> (string \<times> jsval) list wizard" where
  "getProviderConfig provider =
     (let type = firstWord provider;
          config = [(''type'', Str type)]
      in if type = ''firebase'' then
           wbind (question ''Firebase project ID: '') (\<lambda>projectId.
           wbind (question ''Firebase site name (optional): '') (\<lambda>site.
           wreturn (setProp ''site'' (Str (orElse site projectId))
                     (setProp ''projectId'' (Str projectId) config))))
         else if type = ''aws'' then
           wbind (question ''S3 bucket name: '') (\<lambda>bucket.
           wbind (question ''AWS region (e.g., us-east-1): '') (\<lambda>region.
           wbind (question ''CloudFront distribution ID (optional): '') (\<lambda>cloudfront.
           wreturn (setProp ''cloudfront'' (Str cloudfront)
                     (setProp ''region'' (Str (orElse region ''us-east-1''))
                       (setProp ''bucket'' (Str bucket) config))))))
         else if type = ''azure'' then
           wbind (question ''Storage account name: '') (\<lambda>storageAccount.
           wbind (question ''Resource group: '') (\<lambda>resourceGroup.
           wbind (question ''Container name (default: $web): '') (\<lambda>container.
           wreturn (setProp ''container'' (Str (orElse container ''$web''))
                     (setProp ''resourceGroup'' (Str resourceGroup)
                       (setProp ''storageAccount'' (Str storageAccount) config))))))
         else if type = ''vercel'' then
           wbind (question ''Vercel org/team ID (optional): '') (\<lambda>orgId.
           wbind (question ''Vercel project name (optional): '') (\<lambda>projectName.
           wreturn (setProp ''projectName'' (Str projectName)
                     (setProp ''orgId'' (Str orgId) config))))
         else if type = ''netlify'' then
           wbind (question ''Netlify site ID: '') (\<lambda>siteId.
           wreturn (setProp ''siteId'' (Str siteId) config))
         else if type = ''custom'' then
           wbind (question ''Path to deploy script: '') (\<lambda>deployScript.
           wreturn (setProp ''deployScript'' (Str (orElse deployScript ''.cicd/deploy.sh'')) config))
         else wreturn config)"

subsection \<open>The required secrets\<close>

text \<open>\<open>secrets.add(s)\<close> on a \<open>Set\<close>, kept in insertion order for \<open>Array.from\<close>.\<close>

definition setAdd :: "string \<Rightarrow> string list \<Rightarrow> string list" where
  "setAdd s secrets = (if s \<in> set secrets then secrets else secrets @ [s])"

text \<open>The switch on \<open>provider.type\<close> inside the \<open>forEach\<close> of \<open>getRequiredSecrets\<close>.\<close>

definition providerSecrets :: "jsval \<Rightarrow> string list" where
  "providerSecrets provider =
     (let type = getProp ''type'' provider
      in if type = Some (Str ''firebase'') then [''FIREBASE_TOKEN'']
         else if type = Some (Str ''aws'') then [''AWS_ACCESS_KEY_ID'', ''AWS_SECRET_ACCESS_KEY'']
         else if type = Some (Str ''azure'') then [''AZURE_CREDENTIALS'']
         else if type = Some (Str ''vercel'') then [''VERCEL_TOKEN'']
         else if type = Some (Str ''netlify'') then [''NETLIFY_AUTH_TOKEN'', ''NETLIFY_SITE_ID'']
         else [])"

definition addAll :: "string list \<Rightarrow> string list \<Rightarrow> string list" where
  "addAll secrets new = foldl (\<lambda>acc s. setAdd s acc) secrets new"

text \<open>
  \<open>getRequiredSecrets(config)\<close>. \<open>None\<close> is the TypeError of \<open>Object.values(undefined)\<close>
  or of \<open>undefined.type\<close>, when the configuration has no \<open>providers\<close> or no
  \<open>notifications\<close>.
\<close>

definition getRequiredSecrets :: "jsval \<Rightarrow> string list option" where
  "getRequiredSecrets config =
     (case getProp ''providers'' config of
        None \<Rightarrow> None
      | Some providers \<Rightarrow>
          (let secrets = foldl (\<lambda>acc provider. addAll acc (providerSecrets provider)) []
                           (objectValues providers)
           in case getProp ''notifications'' config of
                None \<Rightarrow> None
              | Some notifications \<Rightarrow>
                  Some (if getProp ''type'' notifications = Some (Str ''slack'')
                        then setAdd ''SLACK_WEBHOOK'' secrets
                        else if getProp ''type'' notifications = Some (Str ''discord'')
                        then setAdd ''DISCORD_WEBHOOK'' secrets
                        else secrets)))"

subsection \<open>The generated files\<close>

definition quoted :: "string \<Rightarrow> string" where
  "quoted s = CHR 0x27 # s @ [CHR 0x27]"

text \<open>Lines joined as the template literal has them, each ended by a line feed.\<close>

definition lines_text :: "string list \<Rightarrow> string" where
  "lines_text ls = concat (map (\<lambda>l. l @ [nl]) ls)"

text \<open>
  \<open>generateWorkflow(config)\<close>. \<open>None\<close> is the TypeError of reading a property of
  \<open>undefined\<close> when \<open>providers\<close>, \<open>build\<close>, \<open>testing\<close> or \<open>advanced\<close> is absent.
\<close>

definition generateWorkflow :: "jsval \<Rightarrow> string option" where
  "generateWorkflow config =
     (case (getProp ''providers'' config, getProp ''build'' config,
            getProp ''testing'' config, getProp ''advanced'' config) of
        (Some providers, Some build, Some testing, Some advanced) \<Rightarrow>
          (let production = getProp ''production'' providers;
               prodType = (case production of None \<Rightarrow> None | Some p \<Rightarrow> getProp ''type'' p);
               prodProvider = (if truthy prodType then toStr prodType else ''firebase'')
           in Some (lines_text
             [''name: Deploy Pipeline'',
              ''# Generated by Universal CI/CD Setup'',
              '''',
              ''on:'',
              ''  push:'',
              ''    branches:'',
              ''      - main'',
              ''      - staging'',
              ''      - develop'',
              ''  workflow_dispatch:'',
              ''    inputs:'',
              ''      environment:'',
              ''        description: '' @ quoted ''Deployment environment'',
              ''        required: true'',
              ''        type: choice'',
              ''        options:'',
              ''          - production'',
              ''          - staging'',
              ''          - development'',
              '''',
              ''jobs:'',
              ''  deploy:'',
              ''    name: Deploy to Cloud'',
              ''    uses: sirsimaster/universal-cicd/.github/workflows/universal-deploy.yml@main'',
              ''    with:'',
              ''      provider: '' @ quoted prodProvider,
              ''      environment: ${{ github.event.inputs.environment || (github.ref == ''
                @ quoted ''refs/heads/main'' @ '' && '' @ quoted ''production''
                @ '') || (github.ref == '' @ quoted ''refs/heads/staging'' @ '' && ''
                @ quoted ''staging'' @ '') || '' @ quoted ''development'' @ '' }}'',
              ''      node-version: '' @ quoted (toStr (getProp ''nodeVersion'' build)),
              ''      build-command: '' @ quoted (toStr (getProp ''command'' build)),
              ''      test-command: '' @ quoted (toStr (getProp ''command'' testing)),
              ''      output-directory: '' @ quoted (toStr (getProp ''outputDir'' build)),
              ''      enable-testing: '' @ toStr (getProp ''enabled'' testing),
              ''      enable-caching: '' @ toStr (getProp ''caching'' advanced),
              ''      enable-security-scan: '' @ toStr (getProp ''securityScan'' advanced),
              ''      enable-metrics: '' @ toStr (getProp ''metrics'' advanced),
              ''    secrets: inherit'']))
      | _ \<Rightarrow> None)"

text \<open>\<open>lines.join('\n')\<close>\<close>

fun join_lines :: "string list \<Rightarrow> string" where
  "join_lines [] = []"
| "join_lines [l] = l"
| "join_lines (l # ls) = l @ nl # join_lines ls"

text \<open>
  \<open>generateEnvExample(env)\<close> for an environment the wizard built, whose \<open>name\<close> is a
  string (the call of \<open>toUpperCase\<close> needs one; \<open>None\<close> is its TypeError).
\<close>

definition generateEnvExample :: "jsval \<Rightarrow> string option" where
  "generateEnvExample env =
     (case getProp ''name'' env of
        Some (Str name) \<Rightarrow>
          (let header = ''# '' @ toUpperCase name @ '' Environment Variables'' @ [nl];
               type = getProp ''type'' env;
               body =
                 (if type = Some (Str ''firebase'') then
                    [''FIREBASE_TOKEN=your-firebase-token'',
                     ''FIREBASE_PROJECT='' @ toStr (getProp ''projectId'' env)]
                  else if type = Some (Str ''aws'') then
                    [''AWS_ACCESS_KEY_ID=your-access-key'',
                     ''AWS_SECRET_ACCESS_KEY=your-secret-key'',
                     ''AWS_REGION='' @ toStr (getProp ''region'' env),
                     ''AWS_S3_BUCKET='' @ toStr (getProp ''bucket'' env)]
                    @ (if truthy (getProp ''cloudfront'' env)
                       then [''AWS_CLOUDFRONT_ID='' @ toStr (getProp ''cloudfront'' env)]
                       else [])
                  else if type = Some (Str ''azure'') then
                    [''AZURE_CREDENTIALS={\"clientId\":\"\",\"clientSecret\":\"\",\"subscriptionId\":\"\",\"tenantId\":\"\"}'',
                     ''AZURE_STORAGE_ACCOUNT='' @ toStr (getProp ''storageAccount'' env),
                     ''AZURE_RESOURCE_GROUP='' @ toStr (getProp ''resourceGroup'' env)]
                  else if type = Some (Str ''vercel'') then
                    [''VERCEL_TOKEN=your-vercel-token'']
                    @ (if truthy (getProp ''orgId'' env)
                       then [''VERCEL_ORG_ID='' @ toStr (getProp ''orgId'' env)]
                       else [])
                  else if type = Some (Str ''netlify'') then
                    [''NETLIFY_AUTH_TOKEN=your-netlify-token'',
                     ''NETLIFY_SITE_ID='' @ toStr (getProp ''siteId'' env)]
                  else [])
           in Some (join_lines (header # body)))
      | _ \<Rightarrow> None)"

subsection \<open>The wizard itself\<close>

datatype file_content = Json jsval | Text string

text \<open>
  What a completed run leaves: the configuration object, the files written in order
  (\<open>JSON.stringify(config, null, 2)\<close> is the content \<open>Json config\<close>) and the secrets
  listed under the next steps.
\<close>

record wizard_run =
  run_config :: jsval
  run_files :: "(string \<times> file_content) list"
  run_secrets :: "string list"

definition projectTypes :: "string list" where
  "projectTypes =
     [''web - Static website or SPA'', ''api - Backend API service'',
      ''fullstack - Full-stack application'', ''mobile - Mobile application'',
      ''desktop - Desktop application'']"

definition frameworks :: "string list" where
  "frameworks =
     [''react - React'', ''nextjs - Next.js'', ''vue - Vue.js'', ''angular - Angular'',
      ''svelte - Svelte/SvelteKit'', ''vanilla - Vanilla HTML/CSS/JS'', ''node - Node.js'',
      ''python - Python'', ''dotnet - .NET'', ''other - Other/Custom'']"

definition productionProviders :: "string list" where
  "productionProviders =
     [''firebase - Firebase Hosting'', ''aws - AWS S3 + CloudFront'',
      ''azure - Azure Storage + CDN'', ''vercel - Vercel'', ''netlify - Netlify'',
      ''gcp - Google Cloud Platform'', ''custom - Custom/Self-hosted'']"

definition stagingProviders :: "string list" where
  "stagingProviders =
     [''firebase - Firebase Hosting'', ''aws - AWS S3 + CloudFront'',
      ''azure - Azure Storage + CDN'', ''vercel - Vercel'', ''netlify - Netlify'',
      ''same - Same as production'']"

definition developmentProviders :: "string list" where
  "developmentProviders =
     [''firebase - Firebase Hosting'', ''vercel - Vercel'', ''netlify - Netlify'',
      ''local - Local only'']"

definition notificationChannels :: "string list" where
  "notificationChannels =
     [''slack - Slack'', ''discord - Discord'', ''email - Email'', ''teams - Microsoft Teams'']"

text \<open>
  The testing questions: the test command and the coverage threshold. The threshold
  is kept as the integer \<open>parseInt\<close> reads; JavaScript holds the nearest double, which
  differs for an answer of more than fifteen digits.
\<close>

definition askTesting :: "bool \<Rightarrow> (string \<times> jsval) wizard" where
  "askTesting enableTesting =
     (if enableTesting then
        wbind (question ''Test command: '') (\<lambda>answer.
        wbind (askConfirm ''Enable code coverage checks?'' False) (\<lambda>enableCoverage.
        if enableCoverage then
          wbind (question ''Coverage threshold % (e.g., 80): '') (\<lambda>threshold.
          wreturn (orElse answer ''npm test'',
                   (case parseInt (orElse threshold ''80'') of None \<Rightarrow> NaN | Some n \<Rightarrow> Num n)))
        else wreturn (orElse answer ''npm test'', Num 80)))
      else wreturn (''npm test'', Num 80))"

text \<open>The staging questions; the result is the list of environments so far.\<close>

definition askStaging :: "string \<Rightarrow> (string \<times> jsval) list \<Rightarrow> jsval list \<Rightarrow> jsval list wizard" where
  "askStaging prodProvider prodConfig environments =
     wbind (askConfirm ''Configure staging environment?'' False) (\<lambda>yes.
     if yes then
       wbind (askOption ''Staging provider:'' stagingProviders) (\<lambda>stagingProvider.
       wbind (if stagingProvider = ''same''
              then wreturn (setProp ''environment'' (Str ''staging'') prodConfig)
              else getProviderConfig stagingProvider) (\<lambda>stagingConfig.
       wreturn (environments @
         [Obj (spread [(''name'', Str ''staging''),
                       (''provider'', Str (if stagingProvider = ''same'' then prodProvider
                                           else stagingProvider))]
                 stagingConfig)])))
     else wreturn environments)"

definition askDevelopment :: "jsval list \<Rightarrow> jsval list wizard" where
  "askDevelopment environments =
     wbind (askConfirm ''Configure development environment?'' False) (\<lambda>yes.
     if yes then
       wbind (askOption ''Development provider:'' developmentProviders) (\<lambda>devProvider.
       if devProvider \<noteq> ''local'' then
         wbind (getProviderConfig devProvider) (\<lambda>devConfig.
         wreturn (environments @
           [Obj (spread [(''name'', Str ''development''), (''provider'', Str devProvider)]
                   devConfig)]))
       else wreturn environments)
     else wreturn environments)"

definition askNotifications :: "(string \<times> jsval) list wizard" where
  "askNotifications =
     wbind (askConfirm ''Enable deployment notifications?'' False) (\<lambda>enableNotifications.
     if enableNotifications then
       wbind (askOption ''Notification channel:'' notificationChannels) (\<lambda>notificationType.
       wreturn [(''type'', Str notificationType), (''enabled'', Bool True)])
     else wreturn [])"

text \<open>\<open>environments.forEach(env => { config.providers[env.name] = env; })\<close>\<close>

definition addEnvironment :: "(string \<times> jsval) list \<Rightarrow> jsval \<Rightarrow> (string \<times> jsval) list" where
  "addEnvironment providers env = setProp (toStr (getProp ''name'' env)) env providers"

text \<open>The environment files, written after the workflow in the order of the list.\<close>

fun envFiles :: "jsval list \<Rightarrow> (string \<times> file_content) list option" where
  "envFiles [] = Some []"
| "envFiles (env # envs) =
     (case generateEnvExample env of
        None \<Rightarrow> None
      | Some envExample \<Rightarrow>
          (case envFiles envs of
             None \<Rightarrow> None
           | Some others \<Rightarrow>
               Some ((''.cicd/'' @ toStr (getProp ''name'' env) @ ''.env.example'', Text envExample)
                     # others)))"

text \<open>
  \<open>main\<close>, from the scripted answers. \<open>cwdName\<close> is \<open>path.basename(process.cwd())\<close>, the
  default project name. The file system is taken to accept every write. For the
  configuration built here neither \<open>generateWorkflow\<close>, \<open>generateEnvExample\<close> nor
  \<open>getRequiredSecrets\<close> raises.
\<close>

definition main :: "string \<Rightarrow> string list \<Rightarrow> wizard_run option" where
  "main cwdName answers =
     map_option fst
      ((wbind (question ''Project name: '') (\<lambda>nameAnswer.
       wbind (askOption ''Project type:'' projectTypes) (\<lambda>projectType.
       wbind (askOption ''Framework/Technology:'' frameworks) (\<lambda>framework.
       wbind (question ''Build command (e.g., npm run build): '') (\<lambda>buildAnswer.
       wbind (question ''Build output directory (e.g., dist, build): '') (\<lambda>outputAnswer.
       wbind (question ''Node.js version (e.g., 18, 20): '') (\<lambda>nodeAnswer.
       wbind (askConfirm ''Enable automated testing?'' False) (\<lambda>enableTesting.
       wbind (askTesting enableTesting) (\<lambda>(testCommand, coverageThreshold).
       wbind (askOption ''Production provider:'' productionProviders) (\<lambda>prodProvider.
       wbind (getProviderConfig prodProvider) (\<lambda>prodConfig.
       wbind (askStaging prodProvider prodConfig
                [Obj (spread [(''name'', Str ''production''), (''provider'', Str prodProvider)]
                        prodConfig)]) (\<lambda>environments1.
       wbind (askDevelopment environments1) (\<lambda>environments.
       wbind (askConfirm ''Enable dependency caching?'' True) (\<lambda>enableCaching.
       wbind (askConfirm ''Enable security scanning?'' True) (\<lambda>enableSecurityScan.
       wbind (askConfirm ''Track deployment metrics?'' True) (\<lambda>enableMetrics.
       wbind askNotifications (\<lambda>notificationConfig.
         (let cfg = Obj
                [(''project'', Obj [(''name'', Str (orElse nameAnswer cwdName)),
                                    (''type'', Str (firstWord projectType)),
                                    (''framework'', Str (firstWord framework))]),
                 (''build'', Obj [(''command'', Str (orElse buildAnswer ''npm run build'')),
                                  (''outputDir'', Str (orElse outputAnswer ''dist'')),
                                  (''nodeVersion'', Str (orElse nodeAnswer ''18''))]),
                 (''testing'', Obj [(''enabled'', Bool enableTesting),
                                    (''command'', Str testCommand),
                                    (''coverage'',
                                       Obj [(''enabled'',
                                               Bool (case coverageThreshold of Num n \<Rightarrow> n > 0
                                                     | _ \<Rightarrow> False)),
                                            (''threshold'', coverageThreshold)])]),
                 (''providers'', Obj (foldl addEnvironment [] environments)),
                 (''notifications'', Obj notificationConfig),
                 (''advanced'', Obj [(''caching'', Bool enableCaching),
                                     (''securityScan'', Bool enableSecurityScan),
                                     (''metrics'', Bool enableMetrics)])]
          in case (generateWorkflow cfg, envFiles environments, getRequiredSecrets cfg) of
               (Some workflowContent, Some examples, Some required) \<Rightarrow>
                 wreturn \<lparr>run_config = cfg,
                          run_files = [(''.cicd/config.json'', Json cfg),
                                   (''.github/workflows/deploy.yml'', Text workflowContent)]
                                  @ examples,
                          run_secrets = required\<rparr>
             | _ \<Rightarrow> wthrow))))))))))))))))))
       answers)"

section \<open>The navigation loaders\<close>

text \<open>
  An element is read through \<open>getAttribute\<close>, which is \<open>null\<close> (\<open>None\<close>) for an
  attribute that is not set. Of the console only the warnings and the errors are kept.
\<close>

type_synonym element = "string \<Rightarrow> string option"

datatype console_entry = Warn string | Error string

text \<open>\<open>el.getAttribute(name) || fallback\<close>\<close>

definition attrOr :: "element \<Rightarrow> string \<Rightarrow> string \<Rightarrow> string" where
  "attrOr el name fallback =
     (case el name of None \<Rightarrow> fallback | Some v \<Rightarrow> if v = [] then fallback else v)"

text \<open>\<open>base.replace(/\/$/, '')\<close>: one slash at the very end is dropped.\<close>

definition stripTrailingSlash :: "string \<Rightarrow> string" where
  "stripTrailingSlash s = (if s \<noteq> [] \<and> last s = CHR ''/'' then butlast s else s)"

text \<open>\<open>base && base.trim()\<close> for \<open>base = el.getAttribute('data-base')\<close>.\<close>

definition explicitBase :: "element \<Rightarrow> bool" where
  "explicitBase el =
     (case el ''data-base'' of None \<Rightarrow> False | Some base \<Rightarrow> base \<noteq> [] \<and> trim base \<noteq> [])"

subsection \<open>Replacing tokens\<close>

text \<open>
  Each token regular expression of the loaders is a fixed sequence of one-character
  matchers (a literal or a class), so a pattern is the list of its matchers, and it
  matches at the head of a text when the text is long enough and each matcher accepts
  its character.
\<close>

type_synonym pattern = "(char \<Rightarrow> bool) list"

definition matchesAt :: "pattern \<Rightarrow> string \<Rightarrow> bool" where
  "matchesAt pat s \<longleftrightarrow> length pat \<le> length s \<and> list_all2 (\<lambda>p c. p c) pat (take (length pat) s)"

text \<open>The pattern of a regular expression that spells a text out, as \<open>/\[\[BASE\]\]/\<close> does.\<close>

definition literally :: "string \<Rightarrow> pattern" where
  "literally text = map (\<lambda>c x. x = c) text"

text \<open>
  \<open>str.replace(regex, replacer)\<close> with the \<open>g\<close> flag: the matches are found from left
  to right without overlap, and each is replaced by what the replacer gives for the
  matched text, the text before it and the text after it. \<open>preceding\<close> is the part of the
  subject already passed. The patterns of the loaders are not empty.
\<close>

function replaceFrom ::
  "pattern \<Rightarrow> (string \<Rightarrow> string \<Rightarrow> string \<Rightarrow> string) \<Rightarrow> string \<Rightarrow> string \<Rightarrow> string" where
  "replaceFrom pat replacer preceding rest =
     (if pat \<noteq> [] \<and> matchesAt pat rest then
        replacer (take (length pat) rest) preceding (drop (length pat) rest)
        @ replaceFrom pat replacer (preceding @ take (length pat) rest) (drop (length pat) rest)
      else (case rest of
              [] \<Rightarrow> []
            | c # cs \<Rightarrow> c # replaceFrom pat replacer (preceding @ [c]) cs))"
  by pat_completeness auto
termination
proof (relation "measure (\<lambda>(pat, replacer, preceding, rest). length rest)")
  show "wf (measure (\<lambda>(pat, replacer, preceding, rest). length rest))"
    by simp
next
  fix pat :: pattern and replacer :: "string \<Rightarrow> string \<Rightarrow> string \<Rightarrow> string"
    and preceding rest :: string
  assume "pat \<noteq> [] \<and> matchesAt pat rest"
  then have "pat \<noteq> []" and "length pat \<le> length rest"
    by (simp_all add: matchesAt_def)
  then show "((pat, replacer, preceding @ take (length pat) rest, drop (length pat) rest),
              (pat, replacer, preceding, rest))
             \<in> measure (\<lambda>(pat, replacer, preceding, rest). length rest)"
    by (cases pat) simp_all
next
  fix pat :: pattern and replacer :: "string \<Rightarrow> string \<Rightarrow> string \<Rightarrow> string"
    and preceding rest :: string and c :: char and cs :: string
  assume "rest = c # cs"
  then show "((pat, replacer, preceding @ [c], cs), (pat, replacer, preceding, rest))
             \<in> measure (\<lambda>(pat, replacer, preceding, rest). length rest)"
    by simp
qed

declare replaceFrom.simps [simp del]

definition replaceGlobal ::
  "pattern \<Rightarrow> (string \<Rightarrow> string \<Rightarrow> string \<Rightarrow> string) \<Rightarrow> string \<Rightarrow> string" where
  "replaceGlobal pat replacer subject = replaceFrom pat replacer [] subject"

text \<open>
  A replacement given as a string, for a regular expression without capture groups:
  \<open>$$\<close> is a dollar, \<open>$&\<close> the matched text, \<open>$`\<close> the text before the match and
  \<open>$'\<close> the text after it; every other character stands for itself.
\<close>

fun getSubstitution :: "string \<Rightarrow> string \<Rightarrow> string \<Rightarrow> string \<Rightarrow> string" where
  "getSubstitution (c # d # r) matched preceding following =
     (if c = CHR ''$'' \<and> d = CHR ''$'' then CHR ''$'' # getSubstitution r matched preceding following
      else if c = CHR ''$'' \<and> d = CHR ''&'' then matched @ getSubstitution r matched preceding following
      else if c = CHR ''$'' \<and> d = CHR 0x60 then preceding @ getSubstitution r matched preceding following
      else if c = CHR ''$'' \<and> d = CHR 0x27 then following @ getSubstitution r matched preceding following
      else c # getSubstitution (d # r) matched preceding following)"
| "getSubstitution template matched preceding following = template"

text \<open>\<open>html.replace(/\[\[BASE\]\]/g, base)\<close>, as the admin header and the sidebar write it.\<close>

definition replaceBaseToken :: "string \<Rightarrow> string \<Rightarrow> string" where
  "replaceBaseToken html base = replaceGlobal (literally ''[[BASE]]'') (getSubstitution base) html"

subsection \<open>The sidebar loader\<close>

text \<open>\<open>resolveBase(el)\<close> of the sidebar, with \<open>window.location.pathname\<close> as \<open>path\<close>.\<close>

definition sidebar_resolveBase :: "element \<Rightarrow> string \<Rightarrow> string" where
  "sidebar_resolveBase el path =
     (if explicitBase el then stripTrailingSlash (the (el ''data-base''))
      else if includes_str path ''/admin/development/'' then ''../''
      else if includes_str path ''/admin/contracts/'' then ''../''
      else if includes_str path ''/admin/'' then []
      else ''admin/'')"

text \<open>The path of the template that \<open>injectSidebar\<close> requests.\<close>

definition sidebarPath :: "string \<Rightarrow> string" where
  "sidebarPath path =
     (if includes_str path ''/assiduousflip/admin/development/''
         \<or> includes_str path ''/assiduousflip/admin/contracts/''
      then ''../../components/sidebar.html''
      else if includes_str path ''/admin/development/'' \<or> includes_str path ''/admin/contracts/''
      then ''../../components/sidebar.html''
      else if includes_str path ''/assiduousflip/admin/'' then ''../components/sidebar.html''
      else if includes_str path ''/admin/'' \<or> includes_str path ''/client/''
              \<or> includes_str path ''/docs/''
      then ''../components/sidebar.html''
      else if includes_str path ''/assiduousflip/'' then ''components/sidebar.html''
      else ''components/sidebar.html'')"

text \<open>
  What a loader leaves of its placeholder: nothing happens when the page has no
  placeholder or the template does not arrive, or the placeholder is replaced by
  markup.
\<close>

datatype injection = NoPlaceholder | NotReplaced | ReplacedBy string

text \<open>
  \<open>injectSidebar\<close> once the request has ended (\<open>readyState === 4\<close>) with a status and
  a response text. The highlighting of the active link acts on the parsed document and
  is left out.
\<close>

definition injectSidebar :: "string \<Rightarrow> nat \<Rightarrow> string \<Rightarrow> injection \<times> console_entry list" where
  "injectSidebar base status responseText =
     (if status \<ge> 200 \<and> status < 300 then
        (ReplacedBy (''<aside class=\"sidebar\" data-base=\"'' @ base @ ''\">''
                     @ replaceBaseToken responseText base @ ''</aside>''), [])
      else (NotReplaced, [Error ''Failed to load sidebar template:'']))"

text \<open>The sidebar loader when the document is ready.\<close>

definition sidebar_onReady ::
  "element option \<Rightarrow> string \<Rightarrow> nat \<Rightarrow> string \<Rightarrow> injection \<times> console_entry list" where
  "sidebar_onReady root path status responseText =
     (case root of
        None \<Rightarrow> (NoPlaceholder, [])
      | Some el \<Rightarrow> injectSidebar (sidebar_resolveBase el path) status responseText)"

subsection \<open>The admin header loader\<close>

text \<open>
  \<open>JSON.parse\<close> belongs to the browser and is a parameter \<open>parse\<close> of the loaders;
  \<open>None\<close> is its SyntaxError. The actions of a configuration are the empty list they
  start as, or what \<open>parse\<close> returned.
\<close>

datatype 'j actions = EmptyList | Parsed 'j

record 'j admin_config =
  adm_title :: string
  adm_subtitle :: string
  adm_searchPlaceholder :: string
  adm_actions :: "'j actions"

definition adminHeader_resolveBase :: "element \<Rightarrow> string" where
  "adminHeader_resolveBase el =
     (if explicitBase el then stripTrailingSlash (the (el ''data-base'')) else [])"

text \<open>The path of the template that \<open>injectHeader\<close> of the admin header requests.\<close>

definition headerPath :: "string \<Rightarrow> string" where
  "headerPath path =
     (if includes_str path ''/assiduousflip/admin/development/backups/''
      then ''../../../components/admin-header.html''
      else if includes_str path ''/admin/development/backups/''
      then ''../../../components/admin-header.html''
      else if includes_str path ''/assiduousflip/admin/development/''
              \<or> includes_str path ''/assiduousflip/admin/contracts/''
      then ''../../components/admin-header.html''
      else if includes_str path ''/admin/development/'' \<or> includes_str path ''/admin/contracts/''
      then ''../../components/admin-header.html''
      else if includes_str path ''/assiduousflip/admin/'' then ''../components/admin-header.html''
      else if includes_str path ''/admin/'' \<or> includes_str path ''/client/''
              \<or> includes_str path ''/docs/''
      then ''../components/admin-header.html''
      else if includes_str path ''/assiduousflip/'' then ''components/admin-header.html''
      else ''components/admin-header.html'')"

definition adminHeader_parseConfig ::
  "(string \<Rightarrow> 'j option) \<Rightarrow> element \<Rightarrow> 'j admin_config \<times> console_entry list" where
  "adminHeader_parseConfig parse root =
     (let config = \<lparr>adm_title = attrOr root ''data-title'' ''Admin Portal'',
                     adm_subtitle = attrOr root ''data-subtitle'' ''Manage your platform efficiently'',
                     adm_searchPlaceholder =
                       attrOr root ''data-search-placeholder'' ''Search across all modules...'',
                     adm_actions = EmptyList\<rparr>
      in case root ''data-actions'' of
           None \<Rightarrow> (config, [])
         | Some actionsData \<Rightarrow>
             if actionsData = [] then (config, [])
             else (case parse actionsData of
                     Some parsed \<Rightarrow> (config\<lparr>adm_actions := Parsed parsed\<rparr>, [])
                   | None \<Rightarrow> (config, [Warn ''Failed to parse header actions:''])))"

text \<open>
  \<open>injectHeader(root, base, config)\<close> of the admin header once the request has ended.
  On success the placeholder is replaced and \<open>configureHeader(config)\<close> is scheduled;
  the result carries the configuration it will apply.
\<close>

definition adminHeader_injectHeader ::
  "string \<Rightarrow> 'j admin_config \<Rightarrow> nat \<Rightarrow> string
     \<Rightarrow> injection \<times> 'j admin_config option \<times> console_entry list" where
  "adminHeader_injectHeader base config status responseText =
     (if status \<ge> 200 \<and> status < 300 then
        (ReplacedBy (''<header class=\"admin-header\" data-base=\"'' @ base @ ''\">''
                     @ replaceBaseToken responseText base @ ''</header>''),
         Some config, [])
      else (NotReplaced, None, [Error ''Failed to load admin header template:'']))"

definition adminHeader_onReady ::
  "(string \<Rightarrow> 'j option) \<Rightarrow> element option \<Rightarrow> nat \<Rightarrow> string
     \<Rightarrow> injection \<times> 'j admin_config option \<times> console_entry list" where
  "adminHeader_onReady parse root status responseText =
     (case root of
        None \<Rightarrow> (NoPlaceholder, None, [])
      | Some el \<Rightarrow>
          (let base = adminHeader_resolveBase el;
               (config, warnings) = adminHeader_parseConfig parse el;
               (change, applied, errors) = adminHeader_injectHeader base config status responseText
           in (change, applied, warnings @ errors)))"

subsection \<open>The universal header loader\<close>

text \<open>
  The token regular expressions of the universal header are written with doubled
  backslashes, \<open>/\\[\\[BASE\\]\\]/g\<close>. Such an expression reads: a backslash, one
  character of the class that the first \<open>[\<close> opens (a backslash, \<open>[\<close> and the
  characters up to the first \<open>]\<close>), a backslash, and \<open>]\<close>. \<open>inner\<close> is the text between
  \<open>\\[\\[\<close> and \<open>\\]\\]\<close>.
\<close>

definition doubledBackslashToken :: "string \<Rightarrow> pattern" where
  "doubledBackslashToken inner =
     [\<lambda>c. c = backslash,
      \<lambda>c. c \<in> set ([backslash, CHR ''[''] @ inner @ [backslash]),
      \<lambda>c. c = backslash,
      \<lambda>c. c = CHR '']'']"

definition baseTokenRegex :: pattern where
  "baseTokenRegex = doubledBackslashToken ''BASE''"

definition typeTokenRegex :: pattern where
  "typeTokenRegex = doubledBackslashToken ''TYPE''"

definition titleTokenRegex :: pattern where
  "titleTokenRegex = doubledBackslashToken ''TITLE''"

definition subtitleTokenRegex :: pattern where
  "subtitleTokenRegex = doubledBackslashToken ''SUBTITLE''"

definition userNameTokenRegex :: pattern where
  "userNameTokenRegex =
     doubledBackslashToken (''USER_NAME(?::('' @ [backslash, backslash] @ ''d+):(''
                            @ [backslash, backslash] @ ''d+))?'')"

definition searchPlaceholderTokenRegex :: pattern where
  "searchPlaceholderTokenRegex = doubledBackslashToken ''SEARCH_PLACEHOLDER''"

record 'j universal_config =
  cfg_base :: string
  cfg_type :: string
  cfg_title :: string
  cfg_subtitle :: string
  cfg_userName :: string
  cfg_searchPlaceholder :: string
  cfg_showAuth :: bool
  cfg_actions :: "'j actions"

text \<open>
  \<open>resolveBase()\<close> of the universal header. \<open>script\<close> is the script element found
  (\<open>None\<close> when there is none), given by its \<open>src\<close> attribute.
\<close>

definition universalHeader_resolveBase :: "string option option \<Rightarrow> string \<Rightarrow> string \<Rightarrow> string" where
  "universalHeader_resolveBase script origin currentPath =
     (case script of
        None \<Rightarrow> if includes_str currentPath ''/'' then origin @ ''/assiduousflip'' else origin
      | Some None \<Rightarrow> []
      | Some (Some src) \<Rightarrow>
          if src = [] then []
          else if prefix ''components/'' src then
            (if includes_str currentPath ''/'' then origin @ ''/assiduousflip'' else origin)
          else if suffix ''/components/universal-header.js'' src
          then take (length src - length ''/components/universal-header.js'') src
          else src)"

text \<open>\<open>s.substring(start, end)\<close>; \<open>NaN\<close> counts as 0 and both ends are clamped.\<close>

definition substring :: "string \<Rightarrow> int option \<Rightarrow> int option \<Rightarrow> string" where
  "substring s a b =
     (let len = int (length s);
          clamp = (\<lambda>x. case x of None \<Rightarrow> 0 | Some i \<Rightarrow> min (max i 0) len);
          from = min (clamp a) (clamp b);
          to = max (clamp a) (clamp b)
      in take (nat (to - from)) (drop (nat from) s))"

text \<open>
  The replacer of the user name token. Its regular expression has no capture group,
  so the parameters \<open>start\<close> and \<open>end\<close> receive the offset of the match and the whole
  subject, neither of which is \<open>undefined\<close>.
\<close>

definition userNameReplacer :: "string \<Rightarrow> string \<Rightarrow> string \<Rightarrow> string \<Rightarrow> string" where
  "userNameReplacer userName matched preceding following =
     (if userName = [] then []
      else toUpperCase (substring userName (Some (int (length preceding)))
                          (parseInt (preceding @ matched @ following))))"

definition processTokens :: "string \<Rightarrow> 'j universal_config \<Rightarrow> string" where
  "processTokens html config =
     (let html1 = replaceGlobal baseTokenRegex (getSubstitution (cfg_base config)) html;
          html2 = replaceGlobal typeTokenRegex (getSubstitution (cfg_type config)) html1;
          html3 = replaceGlobal titleTokenRegex (getSubstitution (cfg_title config)) html2;
          html4 = replaceGlobal subtitleTokenRegex (getSubstitution (cfg_subtitle config)) html3;
          html5 = replaceGlobal searchPlaceholderTokenRegex
                    (getSubstitution (cfg_searchPlaceholder config)) html4
      in replaceGlobal userNameTokenRegex (userNameReplacer (cfg_userName config)) html5)"

text \<open>The markup \<open>createFallbackHeader\<close> puts in place of the root element.\<close>

definition fallbackHtml :: "string \<Rightarrow> string" where
  "fallbackHtml base =
     join_lines
       ['''',
        ''        <header class=\"universal-header public-header\" style=\"background: white; border-bottom: 1px solid #e5e7eb; padding: 1rem 1.5rem; display: flex; justify-content: space-between; align-items: center;\">'',
        ''          <div style=\"display: flex; align-items: center; gap: 0.5rem;\">'',
        ''            <svg width=\"24\" height=\"24\" viewBox=\"0 0 24 24\" fill=\"none\" stroke=\"#60A3D9\" stroke-width=\"2\">'',
        ''              <path d=\"M3 9l9-7 9 7v11a2 2 0 0 1-2 2H5a2 2 0 0 1-2-2z\"></path>'',
        ''              <polyline points=\"9 22 9 12 15 12 15 22\"></polyline>'',
        ''            </svg>'',
        ''            <div>'',
        ''              <span style=\"font-size: 1.125rem; font-weight: 700; color: #111827;\">Assiduous</span><br>'',
        ''              <span style=\"font-size: 0.75rem; color: #6b7280; text-transform: uppercase; letter-spacing: 0.05em;\">Properties</span>'',
        ''            </div>'',
        ''          </div>'',
        ''          <div style=\"display: flex; align-items: center; gap: 1rem;\">'',
        ''            <nav style=\"display: flex; gap: 1.5rem;\">'',
        ''              <a href=\"'' @ base @ ''/\" style=\"color: #6b7280; text-decoration: none; font-size: 0.875rem;\">Home</a>'',
        ''              <a href=\"'' @ base @ ''/properties.html\" style=\"color: #6b7280; text-decoration: none; font-size: 0.875rem;\">Properties</a>'',
        ''              <a href=\"'' @ base @ ''/agents.html\" style=\"color: #6b7280; text-decoration: none; font-size: 0.875rem;\">Find Agents</a>'',
        ''              <a href=\"'' @ base @ ''/about.html\" style=\"color: #6b7280; text-decoration: none; font-size: 0.875rem;\">About</a>'',
        ''            </nav>'',
        ''            <div style=\"display: flex; gap: 0.75rem;\">'',
        ''              <a href=\"#\" onclick=\"showLogin()\" style=\"color: #6b7280; text-decoration: none; font-size: 0.875rem;\">Sign In</a>'',
        ''              <a href=\"#\" onclick=\"showSignup()\" style=\"background: #60A3D9; color: white; padding: 0.5rem 1rem; border-radius: 0.375rem; text-decoration: none; font-size: 0.875rem;\">Get Started</a>'',
        ''            </div>'',
        ''          </div>'',
        ''        </header>'',
        ''      '']"

text \<open>The configuration \<open>injectHeader\<close> reads from the root element.\<close>

definition universalHeader_readConfig ::
  "(string \<Rightarrow> 'j option) \<Rightarrow> element \<Rightarrow> string \<Rightarrow> 'j universal_config \<times> console_entry list" where
  "universalHeader_readConfig parse root base =
     (let config = \<lparr>cfg_base = base,
                     cfg_type = attrOr root ''data-type'' ''public'',
                     cfg_title = attrOr root ''data-title'' ''Assiduous Properties'',
                     cfg_subtitle = attrOr root ''data-subtitle'' [],
                     cfg_userName = attrOr root ''data-user-name'' ''User'',
                     cfg_searchPlaceholder = attrOr root ''data-search-placeholder'' ''Search...'',
                     cfg_showAuth = (root ''data-show-auth'' = Some ''true''),
                     cfg_actions = EmptyList\<rparr>
      in case root ''data-actions'' of
           None \<Rightarrow> (config, [])
         | Some actionsAttr \<Rightarrow>
             if actionsAttr = [] then (config, [])
             else (case parse actionsAttr of
                     Some parsed \<Rightarrow> (config\<lparr>cfg_actions := Parsed parsed\<rparr>, [])
                   | None \<Rightarrow> (config, [Warn ''Failed to parse data-actions:''])))"

text \<open>
  The outcome of \<open>fetch(fetchUrl)\<close>: the promise is rejected (a network error), or a
  response arrives with its status and its text (\<open>None\<close> when reading the text fails).
\<close>

datatype fetch_result = FetchRejected | Response nat "string option"

datatype header_change = NoRoot | Injected string | Fallback string

record page =
  page_root :: "element option"
  page_script :: "string option option"
  page_origin :: string
  page_pathname :: string

text \<open>
  \<open>injectHeader\<close> of the universal header, with the outcome of the fetch. \<open>renders\<close>
  says whether the browser builds a header element from the processed template
  (\<open>container.firstElementChild\<close>) and puts it in place of the root; where it does
  not, the exception reaches the \<open>catch\<close> like a failed fetch. \<open>wires\<close> says whether
  \<open>setupInteractivity\<close> then returns for that header and the configuration; it raises
  where the actions of an admin header are not a list of objects. That exception
  reaches the \<open>catch\<close> as well: the error is logged, and the fallback is assigned to
  the \<open>outerHTML\<close> of a root that has left the page, which changes nothing, so the
  header stays. The result is what replaces the root element, with the configuration
  read and the console.
\<close>

definition universalHeader_injectHeader ::
  "(string \<Rightarrow> 'j option) \<Rightarrow> (string \<Rightarrow> bool) \<Rightarrow> (string \<Rightarrow> 'j universal_config \<Rightarrow> bool)
     \<Rightarrow> page \<Rightarrow> fetch_result
     \<Rightarrow> header_change \<times> 'j universal_config option \<times> console_entry list" where
  "universalHeader_injectHeader parse renders wires pg fetched =
     (case page_root pg of
        None \<Rightarrow> (NoRoot, None, [])
      | Some root \<Rightarrow>
          (let base = universalHeader_resolveBase (page_script pg) (page_origin pg)
                        (page_pathname pg);
               (config, warnings) = universalHeader_readConfig parse root base;
               failed = (Fallback (fallbackHtml base), Some config,
                         warnings @ [Error ''Failed to load universal header:''])
           in case fetched of
                FetchRejected \<Rightarrow> failed
              | Response status body \<Rightarrow>
                  if \<not> (200 \<le> status \<and> status \<le> 299) then failed
                  else (case body of
                          None \<Rightarrow> failed
                        | Some html \<Rightarrow>
                            if \<not> renders (processTokens html config) then failed
                            else if wires (processTokens html config) config
                            then (Injected (processTokens html config), Some config, warnings)
                            else (Injected (processTokens html config), Some config,
                                  warnings @ [Error ''Failed to load universal header:'']))))"

subsection \<open>Templates and stand-ins for the statements\<close>

text \<open>
  A template seen as the texts between its \<open>[[BASE]]\<close> tokens: \<open>joinWith sep segments\<close>
  puts \<open>sep\<close> between consecutive segments.
\<close>

fun joinWith :: "string \<Rightarrow> string list \<Rightarrow> string" where
  "joinWith sep [] = []"
| "joinWith sep [s] = s"
| "joinWith sep (s # ss) = s @ sep @ joinWith sep ss"

text \<open>
  For the closed examples, a stand-in for \<open>JSON.parse\<close> that is right whenever it
  rejects: no JSON text is empty, or begins after its white space with a character
  other than \<open>{\<close>, \<open>[\<close>, a double quote, \<open>-\<close>, a digit, \<open>t\<close>, \<open>f\<close> or \<open>n\<close>. Such a
  text is rejected; every other text is handed on unparsed.
\<close>

definition rejectsEarly :: "string \<Rightarrow> string option" where
  "rejectsEarly text =
     (case dropWhile (\<lambda>c. c \<in> set [CHR 0x20, CHR 0x09, CHR 0x0A, CHR 0x0D]) text of
        [] \<Rightarrow> None
      | c # _ \<Rightarrow> if c \<in> set ''{[\"-0123456789tfn'' then Some text else None)"

text \<open>An element given by the list of its attributes.\<close>

definition elementOf :: "(string \<times> string) list \<Rightarrow> element" where
  "elementOf attributes = map_of attributes"

section \<open>The documentation generator\<close>

text \<open>
  \<open>str.match(regex)\<close> without the \<open>g\<close> flag returns the leftmost match: the
  expression is tried at every position in turn, the end of the text included.
\<close>

fun firstMatch :: "(string \<Rightarrow> 'a option) \<Rightarrow> string \<Rightarrow> 'a option" where
  "firstMatch matchAt [] = matchAt []"
| "firstMatch matchAt (c # cs) =
     (case matchAt (c # cs) of Some m \<Rightarrow> Some m | None \<Rightarrow> firstMatch matchAt cs)"

text \<open>
  \<open>/interface\s+\w+Props\s*{([^}]+)}/\<close> tried at the head of a text; the result is
  the capture. Every repetition is greedy and is followed by something that no
  character of its class can begin, so giving characters back never helps, with one
  exception: \<open>\w+\<close> takes the whole run of word characters and must give back a final
  \<open>Props\<close>, so the run ends in \<open>Props\<close> and is longer than that. The capture runs to the
  first \<open>}\<close>, which must exist, and is not empty.
\<close>

definition propsInterfaceAt :: "string \<Rightarrow> string option" where
  "propsInterfaceAt s =
     (if \<not> prefix ''interface'' s then None
      else
        (let r1 = drop (length ''interface'') s;
             spaces = takeWhile isSpace r1;
             r2 = dropWhile isSpace r1;
             word = takeWhile isWord r2;
             r3 = dropWhile isSpace (dropWhile isWord r2)
         in if spaces = [] \<or> \<not> suffix ''Props'' word \<or> length word \<le> length ''Props'' then None
            else (case r3 of
                    [] \<Rightarrow> None
                  | c # r4 \<Rightarrow>
                      if c \<noteq> CHR ''{'' then None
                      else if takeWhile (\<lambda>x. x \<noteq> CHR ''}'') r4 = []
                              \<or> dropWhile (\<lambda>x. x \<noteq> CHR ''}'') r4 = []
                      then None
                      else Some (takeWhile (\<lambda>x. x \<noteq> CHR ''}'') r4))))"

text \<open>
  \<open>/^\s*(\w+)(\?)?:\s*([^;]+)/\<close> on one line: the name, whether the \<open>?\<close> group took
  part, and the third capture. When nothing but the end of the line or a \<open>;\<close> follows
  the white space after the colon, \<open>\s*\<close> gives its last character back to
  \<open>[^;]+\<close>, and the capture is that one white space character.
\<close>

definition propMatch :: "string \<Rightarrow> (string \<times> bool \<times> string) option" where
  "propMatch line =
     (let r1 = dropWhile isSpace line;
          name = takeWhile isWord r1;
          r2 = dropWhile isWord r1;
          optional = (case r2 of [] \<Rightarrow> False | c # _ \<Rightarrow> c = CHR ''?'');
          r3 = (if optional then tl r2 else r2)
      in if name = [] then None
         else (case r3 of
                 [] \<Rightarrow> None
               | c # r4 \<Rightarrow>
                   if c \<noteq> CHR '':'' then None
                   else
                     (let spaces = takeWhile isSpace r4;
                          type = takeWhile (\<lambda>x. x \<noteq> CHR '';'') (dropWhile isSpace r4)
                      in if type \<noteq> [] then Some (name, optional, type)
                         else if spaces \<noteq> [] then Some (name, optional, [last spaces])
                         else None)))"

record prop_info =
  prop_name :: string
  prop_required :: bool
  prop_type :: string

text \<open>
  The props of a captured block: the lines that are not blank, each matched against
  the expression above, in order.
\<close>

definition propsOf :: "string \<Rightarrow> prop_info list" where
  "propsOf propsContent =
     (let propLines = filter (\<lambda>line. trim line \<noteq> []) (split_str nl propsContent)
      in concat (map (\<lambda>line. case propMatch line of
                           None \<Rightarrow> []
                         | Some (name, optional, type) \<Rightarrow>
                             [\<lparr>prop_name = name, prop_required = \<not> optional,
                               prop_type = trim type\<rparr>])
                   propLines))"

text \<open>The text before the first \<open>*/\<close>, if there is one.\<close>

fun beforeCommentEnd :: "string \<Rightarrow> string option" where
  "beforeCommentEnd [] = None"
| "beforeCommentEnd (c # cs) =
     (if c = CHR ''*'' \<and> (case cs of [] \<Rightarrow> False | d # _ \<Rightarrow> d = CHR ''/'') then Some []
      else map_option ((#) c) (beforeCommentEnd cs))"

text \<open>
  \<open>/\/\*\*\s*\n([^*]|\*(?!\/))*\*\//\<close> tried at the head of a text; the result is the
  whole match. After \<open>/**\<close> the white space must hold a line feed, and the group then
  runs to the first \<open>*/\<close>, which it cannot pass.
\<close>

definition jsdocAt :: "string \<Rightarrow> string option" where
  "jsdocAt s =
     (if \<not> prefix ''/**'' s then None
      else
        (let r1 = drop (length ''/**'') s;
             spaces = takeWhile isSpace r1
         in if nl \<notin> set spaces then None
            else (case beforeCommentEnd (dropWhile isSpace r1) of
                    None \<Rightarrow> None
                  | Some body \<Rightarrow> Some (''/**'' @ spaces @ body @ ''*/''))))"

text \<open>
  \<open>/\*\s+([^@\n]+)/\<close> tried at the head of a text; the result is the capture. When
  the white space is followed by \<open>@\<close> or by the end, \<open>\s+\<close> gives characters back
  until one that is not a line feed can start the capture, which is then that single
  white space character; \<open>\s+\<close> keeps at least its first character.
\<close>

definition descriptionAt :: "string \<Rightarrow> string option" where
  "descriptionAt s =
     (case s of
        [] \<Rightarrow> None
      | c # r \<Rightarrow>
          if c \<noteq> CHR ''*'' then None
          else
            (let spaces = takeWhile isSpace r;
                 text = takeWhile (\<lambda>x. x \<noteq> CHR ''@'' \<and> x \<noteq> nl) (dropWhile isSpace r)
             in if spaces = [] then None
                else if text \<noteq> [] then Some text
                else (case filter (\<lambda>x. x \<noteq> nl) (tl spaces) of
                        [] \<Rightarrow> None
                      | x # xs \<Rightarrow> Some [last (x # xs)])))"

record componentInfo =
  ci_name :: string
  ci_props :: "prop_info list"
  ci_methods :: "string list"
  ci_description :: string
  ci_examples :: "string list"

text \<open>
  \<open>parseComponent(filePath)\<close>, given the base name of the file without its extension
  and the text read from it.
\<close>

definition parseComponent :: "string \<Rightarrow> string \<Rightarrow> componentInfo" where
  "parseComponent baseName code =
     \<lparr>ci_name = baseName,
      ci_props = (case firstMatch propsInterfaceAt code of
                    None \<Rightarrow> []
                  | Some propsContent \<Rightarrow> propsOf propsContent),
      ci_methods = [],
      ci_description =
        (case firstMatch jsdocAt code of
           None \<Rightarrow> []
         | Some docContent \<Rightarrow>
             (case firstMatch descriptionAt docContent of
                None \<Rightarrow> []
              | Some description \<Rightarrow> trim description)),
      ci_examples = []\<rparr>"

subsection \<open>Interfaces written one declaration per line\<close>

text \<open>
  A declaration line: indentation, the name, an optional \<open>?\<close>, the colon, a gap, the
  type and what follows it on the line (nothing, or a text that starts with \<open>;\<close>).
\<close>

record field_line =
  f_indent :: string
  f_name :: string
  f_optional :: bool
  f_gap :: string
  f_type :: string
  f_tail :: string

definition fieldLine :: "field_line \<Rightarrow> string" where
  "fieldLine f =
     f_indent f @ f_name f @ (if f_optional f then ''?'' else []) @ '':'' @ f_gap f
     @ f_type f @ f_tail f"

text \<open>Blank text that stays on its line.\<close>

definition isBlank :: "string \<Rightarrow> bool" where
  "isBlank s = list_all (\<lambda>c. isSpace c \<and> c \<noteq> nl) s"

definition wellFormedField :: "field_line \<Rightarrow> bool" where
  "wellFormedField f \<longleftrightarrow>
     isBlank (f_indent f) \<and> f_name f \<noteq> [] \<and> list_all isWord (f_name f) \<and> isBlank (f_gap f)
     \<and> f_type f \<noteq> [] \<and> \<not> isSpace (hd (f_type f)) \<and> \<not> isSpace (last (f_type f))
     \<and> list_all (\<lambda>c. c \<noteq> CHR '';'' \<and> c \<noteq> nl \<and> c \<noteq> CHR ''}'') (f_type f)
     \<and> (f_tail f = [] \<or> hd (f_tail f) = CHR '';'')
     \<and> list_all (\<lambda>c. c \<noteq> nl \<and> c \<noteq> CHR ''}'') (f_tail f)"

text \<open>
  The text of an interface from its keyword to the first closing brace: the
  declarations one per line, and the indentation of the brace.
\<close>

definition interfaceText :: "string \<Rightarrow> field_line list \<Rightarrow> string \<Rightarrow> string" where
  "interfaceText name declarations closeIndent =
     ''interface '' @ name @ ''Props {'' @ [nl]
     @ concat (map (\<lambda>f. fieldLine f @ [nl]) declarations) @ closeIndent @ ''}''"

definition propOf :: "field_line \<Rightarrow> prop_info" where
  "propOf f = \<lparr>prop_name = f_name f, prop_required = \<not> f_optional f, prop_type = f_type f\<rparr>"

section \<open>Example inputs\<close>

text \<open>Production, staging and development all on AWS, with Slack notifications.\<close>

definition threeTimesAws :: jsval where
  "threeTimesAws =
     Obj [(''providers'',
           Obj [(''production'', Obj [(''name'', Str ''production''), (''type'', Str ''aws'')]),
                (''staging'', Obj [(''name'', Str ''staging''), (''type'', Str ''aws'')]),
                (''development'', Obj [(''name'', Str ''development''), (''type'', Str ''aws'')])]),
          (''notifications'', Obj [(''type'', Str ''slack''), (''enabled'', Bool True)])]"

text \<open>
  A scripted run: Firebase for production, no staging, no development, the defaults
  elsewhere, and Slack (channel 1) for the notifications.
\<close>

definition firebaseSlackScript :: "string list" where
  "firebaseSlackScript =
     [''myapp'', ''1'', ''1'', '''', '''', '''', ''n'', ''1'', ''proj'', '''', ''n'', ''n'',
      '''', '''', '''', ''y'', ''1'']"

text \<open>A page whose script tag names the loader by an absolute address.\<close>

definition cdnPage :: page where
  "cdnPage =
     \<lparr>page_root = Some (elementOf [(''data-type'', ''admin''), (''data-title'', ''Dashboard'')]),
      page_script = Some (Some ''https://cdn.example/app/components/universal-header.js''),
      page_origin = ''https://assiduous.example'',
      page_pathname = ''/admin/index.html''\<rparr>"

text \<open>
  A dashboard header whose actions attribute is cut off in the middle, and one whose
  actions attribute is empty.
\<close>

definition brokenActions :: element where
  "brokenActions =
     elementOf [(''data-title'', ''Dashboard''), (''data-actions'', ''label: Export'')]"

definition emptyActions :: element where
  "emptyActions = elementOf [(''data-title'', ''Dashboard''), (''data-actions'', [])]"


section \<open>Properties of the option prompt\<close>

lemma first_Some: "xs \<noteq> [] \<Longrightarrow> first xs = Some (xs ! 0)"
  by (cases xs) (simp_all add: first_def)

lemma parseInt_empty: "parseInt [] = None"
  by (simp add: parseInt_def)

text \<open>
  Claim C9. For a non-empty options list and any answer, selectOption returns an
  element of the list: the k-th option when the answer parses to an integer k with
  1 \<le> k \<le> length, and the first option for every other answer (not a number, zero,
  negative, past the end); it never returns undefined.
\<close>

theorem selectOption_in_options:
  assumes "options \<noteq> []"
  shows "\<exists>v. selectOption options answer = Some v \<and> v \<in> set options
           \<and> (\<forall>k. parseInt answer = Some k \<and> 1 \<le> k \<and> k \<le> int (length options)
                  \<longrightarrow> v = options ! nat (k - 1))
           \<and> (\<forall>k. parseInt answer = Some k \<and> (k < 1 \<or> int (length options) < k)
                  \<longrightarrow> v = options ! 0)
           \<and> (parseInt answer = None \<longrightarrow> v = options ! 0)"
proof (cases "parseInt answer")
  case None
  with assms show ?thesis
    by (simp add: selectOption_def first_Some)
next
  case (Some k)
  show ?thesis
  proof (cases "1 \<le> k \<and> k \<le> int (length options)")
    case True
    then have "nat (k - 1) < length options" by linarith
    with Some True show ?thesis
      by (simp add: selectOption_def Let_def)
  next
    case False
    then have "\<not> (k - 1 \<ge> 0 \<and> k - 1 < int (length options))" by linarith
    with Some False assms show ?thesis
      by (auto simp add: selectOption_def Let_def first_Some)
  qed
qed

theorem selectOption_in_options_witness:
  "[''firebase - Firebase Hosting'', ''vercel - Vercel'', ''local - Local only''] \<noteq> []
   \<and> selectOption [''firebase - Firebase Hosting'', ''vercel - Vercel'', ''local - Local only'']
        ''2'' = Some ''vercel - Vercel''
   \<and> selectOption [''firebase - Firebase Hosting'', ''vercel - Vercel'', ''local - Local only'']
        ''7'' = Some ''firebase - Firebase Hosting''"
proof -
  have p2: "parseInt ''2'' = Some 2"
    by (simp add: parseInt_def isSpace_def isRadixDigit_def isDigit_def digitValue_def
        digitsValue_def)
  have p7: "parseInt ''7'' = Some 7"
    by (simp add: parseInt_def isSpace_def isRadixDigit_def isDigit_def digitValue_def
        digitsValue_def)
  have ne: "[''firebase - Firebase Hosting'', ''vercel - Vercel'', ''local - Local only''] \<noteq> []"
    by simp
  from selectOption_in_options [OF ne, of "''2''"] selectOption_in_options [OF ne, of "''7''"]
  show ?thesis
    using p2 p7 by auto
qed

section \<open>Properties of the setup wizard\<close>

subsection \<open>The set of secrets\<close>

lemma setAdd_distinct: "distinct xs \<Longrightarrow> distinct (setAdd s xs)"
  by (simp add: setAdd_def)

lemma set_setAdd: "set (setAdd s xs) = insert s (set xs)"
  by (auto simp add: setAdd_def)

lemma addAll_distinct: "distinct xs \<Longrightarrow> distinct (addAll xs new)"
  unfolding addAll_def
  by (induction new arbitrary: xs) (simp_all add: setAdd_distinct)

lemma set_addAll: "set (addAll xs new) = set xs \<union> set new"
  unfolding addAll_def
  by (induction new arbitrary: xs) (auto simp add: set_setAdd)

lemma collect_distinct:
  "distinct acc \<Longrightarrow>
   distinct (foldl (\<lambda>acc provider. addAll acc (providerSecrets provider)) acc ps)"
  by (induction ps arbitrary: acc) (simp_all add: addAll_distinct)

lemma set_collect:
  "set (foldl (\<lambda>acc provider. addAll acc (providerSecrets provider)) acc ps)
   = set acc \<union> (\<Union>p\<in>set ps. set (providerSecrets p))"
  by (induction ps arbitrary: acc) (auto simp add: set_addAll)

lemma count_list_distinct: "distinct xs \<Longrightarrow> s \<in> set xs \<Longrightarrow> count_list xs s = 1"
  by (induction xs) (auto simp add: count_list_0_iff)

text \<open>
  Claim C10. For every configuration (one that has its providers and notifications,
  so that getRequiredSecrets returns), the list getRequiredSecrets returns has no
  duplicate: each secret of each provider in use appears exactly once, however many
  environments share the provider.
\<close>

theorem getRequiredSecrets_no_duplicates:
  assumes "getProp ''providers'' config = Some providers"
    and "getProp ''notifications'' config = Some notifications"
  shows "\<exists>required. getRequiredSecrets config = Some required \<and> distinct required
           \<and> (\<forall>provider\<in>set (objectValues providers).
                 \<forall>s\<in>set (providerSecrets provider). count_list required s = 1)"
proof -
  let ?collected = "foldl (\<lambda>acc provider. addAll acc (providerSecrets provider)) []
                      (objectValues providers)"
  obtain required where req: "getRequiredSecrets config = Some required"
    and shape: "required = ?collected \<or> required = setAdd ''SLACK_WEBHOOK'' ?collected
                \<or> required = setAdd ''DISCORD_WEBHOOK'' ?collected"
    using assms by (simp add: getRequiredSecrets_def Let_def)
  have d0: "distinct ?collected"
    by (rule collect_distinct) simp
  from shape d0 have d: "distinct required"
    by (auto simp add: setAdd_distinct)
  have sub: "set ?collected \<subseteq> set required"
    using shape by (auto simp add: set_setAdd)
  have "count_list required s = 1"
    if "provider \<in> set (objectValues providers)" and "s \<in> set (providerSecrets provider)"
    for provider s
  proof -
    from that have "s \<in> set ?collected"
      by (auto simp add: set_collect)
    with sub have "s \<in> set required" by blast
    with d show ?thesis by (rule count_list_distinct)
  qed
  with req d show ?thesis by blast
qed

theorem getRequiredSecrets_no_duplicates_witness:
  "getRequiredSecrets threeTimesAws
     = Some [''AWS_ACCESS_KEY_ID'', ''AWS_SECRET_ACCESS_KEY'', ''SLACK_WEBHOOK'']
   \<and> distinct [''AWS_ACCESS_KEY_ID'', ''AWS_SECRET_ACCESS_KEY'', ''SLACK_WEBHOOK'']
   \<and> count_list [''AWS_ACCESS_KEY_ID'', ''AWS_SECRET_ACCESS_KEY'', ''SLACK_WEBHOOK'']
        ''AWS_ACCESS_KEY_ID'' = 1"
proof -
  have p: "getProp ''providers'' threeTimesAws
             = Some (Obj [(''production'', Obj [(''name'', Str ''production''), (''type'', Str ''aws'')]),
                (''staging'', Obj [(''name'', Str ''staging''), (''type'', Str ''aws'')]),
                (''development'', Obj [(''name'', Str ''development''), (''type'', Str ''aws'')])])"
    by (simp add: threeTimesAws_def)
  have n: "getProp ''notifications'' threeTimesAws
             = Some (Obj [(''type'', Str ''slack''), (''enabled'', Bool True)])"
    by (simp add: threeTimesAws_def)
  have v: "getRequiredSecrets threeTimesAws
             = Some [''AWS_ACCESS_KEY_ID'', ''AWS_SECRET_ACCESS_KEY'', ''SLACK_WEBHOOK'']"
    by (simp add: threeTimesAws_def getRequiredSecrets_def providerSecrets_def addAll_def
        setAdd_def)
  from getRequiredSecrets_no_duplicates [OF p n] v show ?thesis
    by (simp add: providerSecrets_def)
qed

subsection \<open>What a completed run writes\<close>

lemma wbind_Some:
  "wbind m f answers = Some r \<Longrightarrow> \<exists>x rest. m answers = Some (x, rest) \<and> f x rest = Some r"
  by (auto simp add: wbind_def split: option.splits)

lemma first_mem: "first xs = Some v \<Longrightarrow> v \<in> set xs"
  by (cases xs) (simp_all add: first_def)

lemma selectOption_mem:
  assumes "selectOption options answer = Some v"
  shows "v \<in> set options"
proof -
  have "nat (k - 1) < length options" if "0 < k" and "k - 1 < int (length options)" for k
    using that by linarith
  then show ?thesis
    using assms unfolding selectOption_def Let_def
    by (auto split: option.splits if_splits dest: first_mem)
qed

lemma askOption_mem: "askOption prompt options answers = Some (v, rest) \<Longrightarrow> v \<in> set options"
  by (auto simp add: askOption_def wbind_def question_def wreturn_def wthrow_def
      dest: selectOption_mem split: option.splits list.splits)

lemma map_of_setProp: "map_of (setProp k v kvs) k' = (if k' = k then Some v else map_of kvs k')"
  by (induction kvs) auto

lemma map_of_spread_other:
  "k \<notin> fst ` set others \<Longrightarrow> map_of (spread props others) k = map_of props k"
  unfolding spread_def by (induction others arbitrary: props) (auto simp add: map_of_setProp)

lemma getProviderConfig_shape:
  assumes "getProviderConfig provider answers = Some (config, rest)"
  shows "\<exists>others. config = (''type'', Str (firstWord provider)) # others
           \<and> ''type'' \<notin> fst ` set others \<and> ''name'' \<notin> fst ` set others"
  using assms
  by (auto simp add: getProviderConfig_def Let_def wbind_def question_def wreturn_def
      split: if_splits option.splits list.splits)

lemma environment_props:
  assumes "getProviderConfig provider answers = Some (config, rest)"
  shows "getProp ''name'' (Obj (spread [(''name'', Str n), (''provider'', Str p)] config))
           = Some (Str n)"
    and "getProp ''type'' (Obj (spread [(''name'', Str n), (''provider'', Str p)] config))
           = Some (Str (firstWord provider))"
proof -
  from getProviderConfig_shape [OF assms] obtain others where
    c: "config = (''type'', Str (firstWord provider)) # others" and
    t: "''type'' \<notin> fst ` set others" and m: "''name'' \<notin> fst ` set others"
    by blast
  have s: "spread [(''name'', Str n), (''provider'', Str p)] config
           = spread [(''name'', Str n), (''provider'', Str p), (''type'', Str (firstWord provider))]
               others"
    unfolding c spread_def by simp
  show "getProp ''name'' (Obj (spread [(''name'', Str n), (''provider'', Str p)] config))
           = Some (Str n)"
    unfolding s using map_of_spread_other [OF m] by simp
  show "getProp ''type'' (Obj (spread [(''name'', Str n), (''provider'', Str p)] config))
           = Some (Str (firstWord provider))"
    unfolding s using map_of_spread_other [OF t] by simp
qed

lemma askStaging_appends:
  assumes "askStaging prodProvider prodConfig environments answers = Some (environments', rest)"
  shows "\<exists>extra. environments' = environments @ extra
           \<and> (\<forall>e\<in>set extra. getProp ''name'' e = Some (Str ''staging''))"
proof -
  from assms obtain yes r1 where
    k: "(if yes then
       wbind (askOption ''Staging provider:'' stagingProviders) (\<lambda>stagingProvider.
       wbind (if stagingProvider = ''same''
              then wreturn (setProp ''environment'' (Str ''staging'') prodConfig)
              else getProviderConfig stagingProvider) (\<lambda>stagingConfig.
       wreturn (environments @
         [Obj (spread [(''name'', Str ''staging''),
                       (''provider'', Str (if stagingProvider = ''same'' then prodProvider
                                           else stagingProvider))]
                 stagingConfig)])))
     else wreturn environments) r1 = Some (environments', rest)"
    unfolding askStaging_def by (blast dest: wbind_Some)
  show ?thesis
  proof (cases yes)
    case False
    with k have "environments' = environments @ []" by (simp add: wreturn_def)
    then show ?thesis by (intro exI [of _ "[]"]) simp
  next
    case True
    with k have "wbind (askOption ''Staging provider:'' stagingProviders) (\<lambda>stagingProvider.
       wbind (if stagingProvider = ''same''
              then wreturn (setProp ''environment'' (Str ''staging'') prodConfig)
              else getProviderConfig stagingProvider) (\<lambda>stagingConfig.
       wreturn (environments @
         [Obj (spread [(''name'', Str ''staging''),
                       (''provider'', Str (if stagingProvider = ''same'' then prodProvider
                                           else stagingProvider))]
                 stagingConfig)]))) r1 = Some (environments', rest)"
      by simp
    from wbind_Some [OF this] obtain stagingProvider r2 where
      o: "askOption ''Staging provider:'' stagingProviders r1 = Some (stagingProvider, r2)" and
      k2: "wbind (if stagingProvider = ''same''
              then wreturn (setProp ''environment'' (Str ''staging'') prodConfig)
              else getProviderConfig stagingProvider) (\<lambda>stagingConfig.
       wreturn (environments @
         [Obj (spread [(''name'', Str ''staging''),
                       (''provider'', Str (if stagingProvider = ''same'' then prodProvider
                                           else stagingProvider))]
                 stagingConfig)])) r2 = Some (environments', rest)"
      by auto
    from askOption_mem [OF o] have ns: "stagingProvider \<noteq> ''same''"
      by (auto simp add: stagingProviders_def)
    with k2 have "wbind (getProviderConfig stagingProvider) (\<lambda>stagingConfig.
       wreturn (environments @
         [Obj (spread [(''name'', Str ''staging''), (''provider'', Str stagingProvider)]
                 stagingConfig)])) r2 = Some (environments', rest)"
      by simp
    from wbind_Some [OF this] obtain stagingConfig r3 where
      g: "getProviderConfig stagingProvider r2 = Some (stagingConfig, r3)" and
      e: "environments' = environments @
         [Obj (spread [(''name'', Str ''staging''), (''provider'', Str stagingProvider)]
                 stagingConfig)]"
      by (auto simp add: wreturn_def)
    from environment_props(1) [OF g] e show ?thesis by simp
  qed
qed

lemma askDevelopment_appends:
  assumes "askDevelopment environments answers = Some (environments', rest)"
  shows "\<exists>extra. environments' = environments @ extra
           \<and> (\<forall>e\<in>set extra. getProp ''name'' e = Some (Str ''development''))"
proof -
  from assms obtain yes r1 where
    k: "(if yes then
       wbind (askOption ''Development provider:'' developmentProviders) (\<lambda>devProvider.
       if devProvider \<noteq> ''local'' then
         wbind (getProviderConfig devProvider) (\<lambda>devConfig.
         wreturn (environments @
           [Obj (spread [(''name'', Str ''development''), (''provider'', Str devProvider)]
                   devConfig)]))
       else wreturn environments)
     else wreturn environments) r1 = Some (environments', rest)"
    unfolding askDevelopment_def by (blast dest: wbind_Some)
  show ?thesis
  proof (cases yes)
    case False
    with k have "environments' = environments @ []" by (simp add: wreturn_def)
    then show ?thesis by (intro exI [of _ "[]"]) simp
  next
    case True
    with k have "wbind (askOption ''Development provider:'' developmentProviders) (\<lambda>devProvider.
       if devProvider \<noteq> ''local'' then
         wbind (getProviderConfig devProvider) (\<lambda>devConfig.
         wreturn (environments @
           [Obj (spread [(''name'', Str ''development''), (''provider'', Str devProvider)]
                   devConfig)]))
       else wreturn environments) r1 = Some (environments', rest)"
      by simp
    from wbind_Some [OF this] obtain devProvider r2 where
      o: "askOption ''Development provider:'' developmentProviders r1 = Some (devProvider, r2)" and
      k2: "(if devProvider \<noteq> ''local'' then
         wbind (getProviderConfig devProvider) (\<lambda>devConfig.
         wreturn (environments @
           [Obj (spread [(''name'', Str ''development''), (''provider'', Str devProvider)]
                   devConfig)]))
       else wreturn environments) r2 = Some (environments', rest)"
      by auto
    from askOption_mem [OF o] have ns: "devProvider \<noteq> ''local''"
      by (auto simp add: developmentProviders_def)
    with k2 have "wbind (getProviderConfig devProvider) (\<lambda>devConfig.
         wreturn (environments @
           [Obj (spread [(''name'', Str ''development''), (''provider'', Str devProvider)]
                   devConfig)])) r2 = Some (environments', rest)"
      by simp
    from wbind_Some [OF this] obtain devConfig r3 where
      g: "getProviderConfig devProvider r2 = Some (devConfig, r3)" and
      e: "environments' = environments @
           [Obj (spread [(''name'', Str ''development''), (''provider'', Str devProvider)]
                   devConfig)]"
      by (auto simp add: wreturn_def)
    from environment_props(1) [OF g] e show ?thesis by simp
  qed
qed

lemma addEnvironment_keeps:
  assumes "\<forall>e\<in>set extra. toStr (getProp ''name'' e) \<noteq> k"
  shows "map_of (foldl addEnvironment providers extra) k = map_of providers k"
  using assms
  by (induction extra arbitrary: providers) (auto simp add: addEnvironment_def map_of_setProp)

lemma main_parts:
  assumes "main cwdName answers = Some run"
  obtains prodProvider prodConfig environments1 environments a1 r1 r2 r3 r4
    project buildCommand outputDir nodeVersion enableTesting testCommand coverage
    notificationConfig enableCaching enableSecurityScan enableMetrics workflow examples
  where "askOption ''Production provider:'' productionProviders a1 = Some (prodProvider, r1)"
    and "getProviderConfig prodProvider r1 = Some (prodConfig, r2)"
    and "askStaging prodProvider prodConfig
           [Obj (spread [(''name'', Str ''production''), (''provider'', Str prodProvider)]
                   prodConfig)] r2 = Some (environments1, r3)"
    and "askDevelopment environments1 r3 = Some (environments, r4)"
    and "run_config run = Obj
           [(''project'', project),
            (''build'', Obj [(''command'', Str buildCommand), (''outputDir'', Str outputDir),
                             (''nodeVersion'', Str nodeVersion)]),
            (''testing'', Obj [(''enabled'', Bool enableTesting), (''command'', Str testCommand),
                               (''coverage'', coverage)]),
            (''providers'', Obj (foldl addEnvironment [] environments)),
            (''notifications'', Obj notificationConfig),
            (''advanced'', Obj [(''caching'', Bool enableCaching),
                                (''securityScan'', Bool enableSecurityScan),
                                (''metrics'', Bool enableMetrics)])]"
    and "generateWorkflow (run_config run) = Some workflow"
    and "run_files run = [(''.cicd/config.json'', Json (run_config run)),
                          (''.github/workflows/deploy.yml'', Text workflow)] @ examples"
  using assms unfolding main_def
  apply clarsimp
  apply (drule wbind_Some, clarify)+
  apply (auto simp add: Let_def wreturn_def wthrow_def split: option.splits prod.splits)
  done

lemma production_provider:
  assumes "askOption prompt productionProviders answers = Some (prodProvider, rest)"
  shows "firstWord prodProvider
           \<in> set [''firebase'', ''aws'', ''azure'', ''vercel'', ''netlify'', ''gcp'', ''custom'']"
  using askOption_mem [OF assms] by (auto simp add: productionProviders_def firstWord_def)

lemma production_kept:
  assumes "getProp ''name'' production = Some (Str ''production'')"
    and "\<forall>e\<in>set extra. getProp ''name'' e = Some (Str ''staging'')
                        \<or> getProp ''name'' e = Some (Str ''development'')"
  shows "map_of (foldl addEnvironment [] (production # extra)) ''production'' = Some production"
proof -
  have "\<forall>e\<in>set extra. toStr (getProp ''name'' e) \<noteq> ''production''"
    using assms(2) by auto
  from addEnvironment_keeps [OF this] assms(1) show ?thesis
    by (simp add: addEnvironment_def)
qed

text \<open>
  Claim C4. Every completed run of the wizard writes to .cicd/config.json a
  configuration object with exactly the six top-level keys project, build, testing,
  providers, notifications and advanced, and then writes the GitHub Actions workflow
  file .github/workflows/deploy.yml, generated from that configuration. The workflow
  is the text below: it calls the reusable deployment workflow with the first word of
  the production provider chosen, the node version, the build command, the test
  command and the output directory of the configuration, and its testing, caching,
  security-scan and metrics switches.
\<close>

theorem main_writes_config_and_workflow:
  assumes "main cwdName answers = Some run"
  shows "\<exists>kvs workflow provider buildCommand outputDir nodeVersion testCommand enableTesting
            enableCaching enableSecurityScan enableMetrics.
           run_config run = Obj kvs
         \<and> map fst kvs = [''project'', ''build'', ''testing'', ''providers'',
                          ''notifications'', ''advanced'']
         \<and> generateWorkflow (run_config run) = Some workflow
         \<and> take 2 (run_files run) = [(''.cicd/config.json'', Json (run_config run)),
               (''.github/workflows/deploy.yml'', Text workflow)]
         \<and> provider \<in> set [''firebase'', ''aws'', ''azure'', ''vercel'', ''netlify'', ''gcp'',
                             ''custom'']
         \<and> Option.bind (Option.bind (map_of kvs ''providers'') (getProp ''production''))
              (getProp ''type'') = Some (Str provider)
         \<and> map_of kvs ''build''
              = Some (Obj [(''command'', Str buildCommand), (''outputDir'', Str outputDir),
                           (''nodeVersion'', Str nodeVersion)])
         \<and> Option.bind (map_of kvs ''testing'') (getProp ''enabled'') = Some (Bool enableTesting)
         \<and> Option.bind (map_of kvs ''testing'') (getProp ''command'') = Some (Str testCommand)
         \<and> map_of kvs ''advanced''
              = Some (Obj [(''caching'', Bool enableCaching),
                           (''securityScan'', Bool enableSecurityScan),
                           (''metrics'', Bool enableMetrics)])
         \<and> workflow = lines_text
             [''name: Deploy Pipeline'',
              ''# Generated by Universal CI/CD Setup'',
              '''',
              ''on:'',
              ''  push:'',
              ''    branches:'',
              ''      - main'',
              ''      - staging'',
              ''      - develop'',
              ''  workflow_dispatch:'',
              ''    inputs:'',
              ''      environment:'',
              ''        description: '' @ quoted ''Deployment environment'',
              ''        required: true'',
              ''        type: choice'',
              ''        options:'',
              ''          - production'',
              ''          - staging'',
              ''          - development'',
              '''',
              ''jobs:'',
              ''  deploy:'',
              ''    name: Deploy to Cloud'',
              ''    uses: sirsimaster/universal-cicd/.github/workflows/universal-deploy.yml@main'',
              ''    with:'',
              ''      provider: '' @ quoted provider,
              ''      environment: ${{ github.event.inputs.environment || (github.ref == ''
                @ quoted ''refs/heads/main'' @ '' && '' @ quoted ''production''
                @ '') || (github.ref == '' @ quoted ''refs/heads/staging'' @ '' && ''
                @ quoted ''staging'' @ '') || '' @ quoted ''development'' @ '' }}'',
              ''      node-version: '' @ quoted nodeVersion,
              ''      build-command: '' @ quoted buildCommand,
              ''      test-command: '' @ quoted testCommand,
              ''      output-directory: '' @ quoted outputDir,
              ''      enable-testing: '' @ (if enableTesting then ''true'' else ''false''),
              ''      enable-caching: '' @ (if enableCaching then ''true'' else ''false''),
              ''      enable-security-scan: ''
                @ (if enableSecurityScan then ''true'' else ''false''),
              ''      enable-metrics: '' @ (if enableMetrics then ''true'' else ''false''),
              ''    secrets: inherit'']"
proof -
  from assms obtain prodProvider prodConfig environments1 environments a1 r1 r2 r3 r4
    project buildCommand outputDir nodeVersion enableTesting testCommand coverage
    notificationConfig enableCaching enableSecurityScan enableMetrics workflow examples
  where po: "askOption ''Production provider:'' productionProviders a1 = Some (prodProvider, r1)"
    and pc: "getProviderConfig prodProvider r1 = Some (prodConfig, r2)"
    and st: "askStaging prodProvider prodConfig
           [Obj (spread [(''name'', Str ''production''), (''provider'', Str prodProvider)]
                   prodConfig)] r2 = Some (environments1, r3)"
    and dv: "askDevelopment environments1 r3 = Some (environments, r4)"
    and cfg: "run_config run = Obj
           [(''project'', project),
            (''build'', Obj [(''command'', Str buildCommand), (''outputDir'', Str outputDir),
                             (''nodeVersion'', Str nodeVersion)]),
            (''testing'', Obj [(''enabled'', Bool enableTesting), (''command'', Str testCommand),
                               (''coverage'', coverage)]),
            (''providers'', Obj (foldl addEnvironment [] environments)),
            (''notifications'', Obj notificationConfig),
            (''advanced'', Obj [(''caching'', Bool enableCaching),
                                (''securityScan'', Bool enableSecurityScan),
                                (''metrics'', Bool enableMetrics)])]"
    and gw: "generateWorkflow (run_config run) = Some workflow"
    and files: "run_files run = [(''.cicd/config.json'', Json (run_config run)),
                          (''.github/workflows/deploy.yml'', Text workflow)] @ examples"
    by (rule main_parts)
  define production where
    "production = Obj (spread [(''name'', Str ''production''), (''provider'', Str prodProvider)]
                         prodConfig)"
  define provider where "provider = firstWord prodProvider"
  define providers where "providers = foldl addEnvironment [] environments"
  have pn: "getProp ''name'' production = Some (Str ''production'')"
    and pt: "getProp ''type'' production = Some (Str provider)"
    unfolding production_def provider_def by (rule environment_props [OF pc])+
  from askStaging_appends [OF st] obtain extra1 where
    e1: "environments1 = [production] @ extra1"
    and n1: "\<forall>e\<in>set extra1. getProp ''name'' e = Some (Str ''staging'')"
    unfolding production_def by blast
  from askDevelopment_appends [OF dv] obtain extra2 where
    e2: "environments = environments1 @ extra2"
    and n2: "\<forall>e\<in>set extra2. getProp ''name'' e = Some (Str ''development'')"
    by blast
  have env: "environments = production # (extra1 @ extra2)"
    using e1 e2 by simp
  have "\<forall>e\<in>set (extra1 @ extra2). getProp ''name'' e = Some (Str ''staging'')
                        \<or> getProp ''name'' e = Some (Str ''development'')"
    using n1 n2 by auto
  from production_kept [OF pn this]
  have look: "map_of providers ''production'' = Some production"
    unfolding providers_def env .
  have member: "provider \<in> set [''firebase'', ''aws'', ''azure'', ''vercel'', ''netlify'', ''gcp'',
                             ''custom'']"
    unfolding provider_def by (rule production_provider [OF po])
  then have ne: "provider \<noteq> []"
    by auto
  have cfg': "run_config run = Obj
           [(''project'', project),
            (''build'', Obj [(''command'', Str buildCommand), (''outputDir'', Str outputDir),
                             (''nodeVersion'', Str nodeVersion)]),
            (''testing'', Obj [(''enabled'', Bool enableTesting), (''command'', Str testCommand),
                               (''coverage'', coverage)]),
            (''providers'', Obj providers),
            (''notifications'', Obj notificationConfig),
            (''advanced'', Obj [(''caching'', Bool enableCaching),
                                (''securityScan'', Bool enableSecurityScan),
                                (''metrics'', Bool enableMetrics)])]"
    unfolding providers_def by (rule cfg)
  have whole: "generateWorkflow (run_config run) = Some (lines_text
             [''name: Deploy Pipeline'',
              ''# Generated by Universal CI/CD Setup'',
              '''',
              ''on:'',
              ''  push:'',
              ''    branches:'',
              ''      - main'',
              ''      - staging'',
              ''      - develop'',
              ''  workflow_dispatch:'',
              ''    inputs:'',
              ''      environment:'',
              ''        description: '' @ quoted ''Deployment environment'',
              ''        required: true'',
              ''        type: choice'',
              ''        options:'',
              ''          - production'',
              ''          - staging'',
              ''          - development'',
              '''',
              ''jobs:'',
              ''  deploy:'',
              ''    name: Deploy to Cloud'',
              ''    uses: sirsimaster/universal-cicd/.github/workflows/universal-deploy.yml@main'',
              ''    with:'',
              ''      provider: '' @ quoted provider,
              ''      environment: ${{ github.event.inputs.environment || (github.ref == ''
                @ quoted ''refs/heads/main'' @ '' && '' @ quoted ''production''
                @ '') || (github.ref == '' @ quoted ''refs/heads/staging'' @ '' && ''
                @ quoted ''staging'' @ '') || '' @ quoted ''development'' @ '' }}'',
              ''      node-version: '' @ quoted nodeVersion,
              ''      build-command: '' @ quoted buildCommand,
              ''      test-command: '' @ quoted testCommand,
              ''      output-directory: '' @ quoted outputDir,
              ''      enable-testing: '' @ (if enableTesting then ''true'' else ''false''),
              ''      enable-caching: '' @ (if enableCaching then ''true'' else ''false''),
              ''      enable-security-scan: ''
                @ (if enableSecurityScan then ''true'' else ''false''),
              ''      enable-metrics: '' @ (if enableMetrics then ''true'' else ''false''),
              ''    secrets: inherit''])"
    unfolding cfg' generateWorkflow_def using look pt ne by simp
  have bind: "Option.bind (Option.bind (map_of
           [(''project'', project),
            (''build'', Obj [(''command'', Str buildCommand), (''outputDir'', Str outputDir),
                             (''nodeVersion'', Str nodeVersion)]),
            (''testing'', Obj [(''enabled'', Bool enableTesting), (''command'', Str testCommand),
                               (''coverage'', coverage)]),
            (''providers'', Obj providers),
            (''notifications'', Obj notificationConfig),
            (''advanced'', Obj [(''caching'', Bool enableCaching),
                                (''securityScan'', Bool enableSecurityScan),
                                (''metrics'', Bool enableMetrics)])] ''providers'')
              (getProp ''production'')) (getProp ''type'') = Some (Str provider)"
    using look pt by simp
  from whole gw have w: "workflow = lines_text
             [''name: Deploy Pipeline'',
              ''# Generated by Universal CI/CD Setup'',
              '''',
              ''on:'',
              ''  push:'',
              ''    branches:'',
              ''      - main'',
              ''      - staging'',
              ''      - develop'',
              ''  workflow_dispatch:'',
              ''    inputs:'',
              ''      environment:'',
              ''        description: '' @ quoted ''Deployment environment'',
              ''        required: true'',
              ''        type: choice'',
              ''        options:'',
              ''          - production'',
              ''          - staging'',
              ''          - development'',
              '''',
              ''jobs:'',
              ''  deploy:'',
              ''    name: Deploy to Cloud'',
              ''    uses: sirsimaster/universal-cicd/.github/workflows/universal-deploy.yml@main'',
              ''    with:'',
              ''      provider: '' @ quoted provider,
              ''      environment: ${{ github.event.inputs.environment || (github.ref == ''
                @ quoted ''refs/heads/main'' @ '' && '' @ quoted ''production''
                @ '') || (github.ref == '' @ quoted ''refs/heads/staging'' @ '' && ''
                @ quoted ''staging'' @ '') || '' @ quoted ''development'' @ '' }}'',
              ''      node-version: '' @ quoted nodeVersion,
              ''      build-command: '' @ quoted buildCommand,
              ''      test-command: '' @ quoted testCommand,
              ''      output-directory: '' @ quoted outputDir,
              ''      enable-testing: '' @ (if enableTesting then ''true'' else ''false''),
              ''      enable-caching: '' @ (if enableCaching then ''true'' else ''false''),
              ''      enable-security-scan: ''
                @ (if enableSecurityScan then ''true'' else ''false''),
              ''      enable-metrics: '' @ (if enableMetrics then ''true'' else ''false''),
              ''    secrets: inherit'']"
    by simp
  have t2: "take 2 (run_files run) = [(''.cicd/config.json'', Json (run_config run)),
               (''.github/workflows/deploy.yml'', Text workflow)]"
    unfolding files by simp
  show ?thesis
    apply (rule exI [of _ "[(''project'', project),
            (''build'', Obj [(''command'', Str buildCommand), (''outputDir'', Str outputDir),
                             (''nodeVersion'', Str nodeVersion)]),
            (''testing'', Obj [(''enabled'', Bool enableTesting), (''command'', Str testCommand),
                               (''coverage'', coverage)]),
            (''providers'', Obj providers),
            (''notifications'', Obj notificationConfig),
            (''advanced'', Obj [(''caching'', Bool enableCaching),
                                (''securityScan'', Bool enableSecurityScan),
                                (''metrics'', Bool enableMetrics)])]"])
    apply (rule exI [of _ workflow])
    apply (rule exI [of _ provider])
    apply (rule exI [of _ buildCommand])
    apply (rule exI [of _ outputDir])
    apply (rule exI [of _ nodeVersion])
    apply (rule exI [of _ testCommand])
    apply (rule exI [of _ enableTesting])
    apply (rule exI [of _ enableCaching])
    apply (rule exI [of _ enableSecurityScan])
    apply (rule exI [of _ enableMetrics])
    apply (intro conjI)
              apply (rule cfg')
             apply simp
            apply (rule gw)
           apply (rule t2)
          apply (rule member)
         apply (rule bind)
        apply simp
       apply simp
      apply simp
     apply simp
    apply (rule w)
    done
qed

text \<open>
  The scripted run with Firebase for production and the defaults elsewhere completes,
  and this is its workflow file.
\<close>

lemma firebaseSlackScript_completes: "main ''dir'' firebaseSlackScript \<noteq> None"
  unfolding firebaseSlackScript_def by code_simp

lemma firebaseSlackScript_workflow:
  "map_option (\<lambda>run. run_files run ! 1) (main ''dir'' firebaseSlackScript)
   = Some (''.github/workflows/deploy.yml'', Text (lines_text
             [''name: Deploy Pipeline'',
              ''# Generated by Universal CI/CD Setup'',
              '''',
              ''on:'',
              ''  push:'',
              ''    branches:'',
              ''      - main'',
              ''      - staging'',
              ''      - develop'',
              ''  workflow_dispatch:'',
              ''    inputs:'',
              ''      environment:'',
              ''        description: '' @ quoted ''Deployment environment'',
              ''        required: true'',
              ''        type: choice'',
              ''        options:'',
              ''          - production'',
              ''          - staging'',
              ''          - development'',
              '''',
              ''jobs:'',
              ''  deploy:'',
              ''    name: Deploy to Cloud'',
              ''    uses: sirsimaster/universal-cicd/.github/workflows/universal-deploy.yml@main'',
              ''    with:'',
              ''      provider: '' @ quoted ''firebase'',
              ''      environment: ${{ github.event.inputs.environment || (github.ref == ''
                @ quoted ''refs/heads/main'' @ '' && '' @ quoted ''production''
                @ '') || (github.ref == '' @ quoted ''refs/heads/staging'' @ '' && ''
                @ quoted ''staging'' @ '') || '' @ quoted ''development'' @ '' }}'',
              ''      node-version: '' @ quoted ''18'',
              ''      build-command: '' @ quoted ''npm run build'',
              ''      test-command: '' @ quoted ''npm test'',
              ''      output-directory: '' @ quoted ''dist'',
              ''      enable-testing: false'',
              ''      enable-caching: true'',
              ''      enable-security-scan: true'',
              ''      enable-metrics: true'',
              ''    secrets: inherit'']))"
  unfolding firebaseSlackScript_def by code_simp

theorem main_writes_config_and_workflow_witness:
  "\<exists>run kvs workflow provider.
      main ''dir'' firebaseSlackScript = Some run
      \<and> run_config run = Obj kvs
      \<and> map fst kvs = [''project'', ''build'', ''testing'', ''providers'',
                       ''notifications'', ''advanced'']
      \<and> generateWorkflow (run_config run) = Some workflow
      \<and> take 2 (run_files run) = [(''.cicd/config.json'', Json (run_config run)),
            (''.github/workflows/deploy.yml'', Text workflow)]
      \<and> provider \<in> set [''firebase'', ''aws'', ''azure'', ''vercel'', ''netlify'', ''gcp'',
                          ''custom'']
      \<and> Option.bind (Option.bind (map_of kvs ''providers'') (getProp ''production''))
           (getProp ''type'') = Some (Str provider)"
proof -
  obtain run where r: "main ''dir'' firebaseSlackScript = Some run"
    using firebaseSlackScript_completes by auto
  from main_writes_config_and_workflow [OF r] obtain kvs workflow provider where
    "run_config run = Obj kvs"
    "map fst kvs = [''project'', ''build'', ''testing'', ''providers'',
                    ''notifications'', ''advanced'']"
    "generateWorkflow (run_config run) = Some workflow"
    "take 2 (run_files run) = [(''.cicd/config.json'', Json (run_config run)),
            (''.github/workflows/deploy.yml'', Text workflow)]"
    "provider \<in> set [''firebase'', ''aws'', ''azure'', ''vercel'', ''netlify'', ''gcp'',
                        ''custom'']"
    "Option.bind (Option.bind (map_of kvs ''providers'') (getProp ''production''))
           (getProp ''type'') = Some (Str provider)"
    by (elim exE conjE) (rule that)
  with r show ?thesis
    by (intro exI conjI)
qed

subsection \<open>The secrets a run lists\<close>

lemma askNotifications_type:
  assumes "askNotifications answers = Some (notificationConfig, rest)"
  shows "getProp ''type'' (Obj notificationConfig) \<noteq> Some (Str ''slack'')
         \<and> getProp ''type'' (Obj notificationConfig) \<noteq> Some (Str ''discord'')"
proof -
  from assms obtain yes r1 where
    c: "askConfirm ''Enable deployment notifications?'' False answers = Some (yes, r1)" and
    k: "(if yes then
       wbind (askOption ''Notification channel:'' notificationChannels) (\<lambda>notificationType.
       wreturn [(''type'', Str notificationType), (''enabled'', Bool True)])
     else wreturn []) r1 = Some (notificationConfig, rest)"
    unfolding askNotifications_def by (blast dest: wbind_Some)
  show ?thesis
  proof (cases yes)
    case False
    with k show ?thesis by (simp add: wreturn_def)
  next
    case True
    with k obtain t r2 where
      t: "askOption ''Notification channel:'' notificationChannels r1 = Some (t, r2)" and
      e: "wreturn [(''type'', Str t), (''enabled'', Bool True)] r2 = Some (notificationConfig, rest)"
      by (auto dest!: wbind_Some)
    from askOption_mem [OF t] have "t \<noteq> ''slack'' \<and> t \<noteq> ''discord''"
      by (auto simp add: notificationChannels_def)
    with e show ?thesis by (auto simp add: wreturn_def)
  qed
qed

lemma providerSecrets_names:
  "set (providerSecrets p) \<subseteq>
     {''FIREBASE_TOKEN'', ''AWS_ACCESS_KEY_ID'', ''AWS_SECRET_ACCESS_KEY'', ''AZURE_CREDENTIALS'',
      ''VERCEL_TOKEN'', ''NETLIFY_AUTH_TOKEN'', ''NETLIFY_SITE_ID''}"
  by (auto simp add: providerSecrets_def Let_def)

lemma collected_names:
  "set (foldl (\<lambda>acc provider. addAll acc (providerSecrets provider)) [] ps) \<subseteq>
     {''FIREBASE_TOKEN'', ''AWS_ACCESS_KEY_ID'', ''AWS_SECRET_ACCESS_KEY'', ''AZURE_CREDENTIALS'',
      ''VERCEL_TOKEN'', ''NETLIFY_AUTH_TOKEN'', ''NETLIFY_SITE_ID''}"
  using providerSecrets_names by (fastforce simp add: set_collect)

text \<open>
  The notification type the wizard stores is the whole label of the chosen option
  (\<open>slack - Slack\<close>), which getRequiredSecrets compares with \<open>slack\<close>: no run lists a
  webhook secret.
\<close>

lemma main_lists_no_webhook:
  assumes "main cwdName answers = Some run"
  shows "''SLACK_WEBHOOK'' \<notin> set (run_secrets run) \<and> ''DISCORD_WEBHOOK'' \<notin> set (run_secrets run)"
proof -
  from assms obtain environments notificationConfig a r kvs where
    n: "askNotifications a = Some (notificationConfig, r)" and
    s: "getRequiredSecrets (Obj kvs) = Some (run_secrets run)" and
    k: "map_of kvs ''providers'' = Some (Obj (foldl addEnvironment [] environments))"
       "map_of kvs ''notifications'' = Some (Obj notificationConfig)"
    unfolding main_def
    apply clarsimp
    apply (drule wbind_Some, clarify)+
    apply (auto simp add: Let_def wreturn_def wthrow_def split: option.splits prod.splits)
    done
  from askNotifications_type [OF n] s k
  have "run_secrets run = foldl (\<lambda>acc provider. addAll acc (providerSecrets provider)) []
           (objectValues (Obj (foldl addEnvironment [] environments)))"
    by (auto simp add: getRequiredSecrets_def Let_def)
  with collected_names [of "objectValues (Obj (foldl addEnvironment [] environments))"]
  have "set (run_secrets run) \<subseteq>
     {''FIREBASE_TOKEN'', ''AWS_ACCESS_KEY_ID'', ''AWS_SECRET_ACCESS_KEY'', ''AZURE_CREDENTIALS'',
      ''VERCEL_TOKEN'', ''NETLIFY_AUTH_TOKEN'', ''NETLIFY_SITE_ID''}"
    by simp
  then show ?thesis by auto
qed

text \<open>
  Claim C2, at the scripted run above: the user chooses Firebase and Slack, the
  provider-to-secret table asks for FIREBASE_TOKEN and SLACK_WEBHOOK, and the run
  lists FIREBASE_TOKEN alone, the stored notification type being \<open>slack - Slack\<close>.
\<close>

theorem main_misses_slack_webhook:
  "map_option run_secrets (main ''dir'' firebaseSlackScript) = Some [''FIREBASE_TOKEN'']
   \<and> map_option (\<lambda>run. Option.bind (getProp ''notifications'' (run_config run)) (getProp ''type''))
        (main ''dir'' firebaseSlackScript) = Some (Some (Str ''slack - Slack''))"
  unfolding firebaseSlackScript_def by code_simp

section \<open>Properties of the navigation loaders\<close>

subsection \<open>Path patterns\<close>

lemma includes_str_sublist: "includes_str s p \<longleftrightarrow> sublist p s"
  by (induction s) (simp_all add: sublist_Cons_right)

lemma includes_str_append: "includes_str s (p @ q) \<Longrightarrow> includes_str s p"
  unfolding includes_str_sublist sublist_def by (metis append.assoc)

lemma includes_str_append_right: "includes_str s (p @ q) \<Longrightarrow> includes_str s q"
  unfolding includes_str_sublist sublist_def by (metis append.assoc)

lemma admin_in_development: "includes_str path ''/admin/development/'' \<Longrightarrow> includes_str path ''/admin/''"
  using includes_str_append [of path "''/admin/''" "''development/''"] by simp

lemma admin_in_contracts: "includes_str path ''/admin/contracts/'' \<Longrightarrow> includes_str path ''/admin/''"
  using includes_str_append [of path "''/admin/''" "''contracts/''"] by simp

lemma development_in_backups:
  "includes_str path ''/admin/development/backups/'' \<Longrightarrow> includes_str path ''/admin/development/''"
  using includes_str_append [of path "''/admin/development/''" "''backups/''"] by simp

lemma backups_in_assiduousflip:
  "includes_str path ''/assiduousflip/admin/development/backups/''
   \<Longrightarrow> includes_str path ''/admin/development/backups/''"
  using includes_str_append_right [of path "''/assiduousflip''" "''/admin/development/backups/''"]
  by simp

lemma development_in_assiduousflip:
  "includes_str path ''/assiduousflip/admin/development/''
   \<Longrightarrow> includes_str path ''/admin/development/''"
  using includes_str_append_right [of path "''/assiduousflip''" "''/admin/development/''"]
  by simp

lemma contracts_in_assiduousflip:
  "includes_str path ''/assiduousflip/admin/contracts/''
   \<Longrightarrow> includes_str path ''/admin/contracts/''"
  using includes_str_append_right [of path "''/assiduousflip''" "''/admin/contracts/''"]
  by simp

lemma admin_in_assiduousflip:
  "includes_str path ''/assiduousflip/admin/'' \<Longrightarrow> includes_str path ''/admin/''"
  using includes_str_append_right [of path "''/assiduousflip''" "''/admin/''"]
  by simp

text \<open>
  The chain of tests that chooses the template of the sidebar, reduced to the patterns
  that decide: each \<open>/assiduousflip/...\<close> test is followed by the test of the same
  pattern without that prefix, with the same result.
\<close>

lemma sidebarPath_table:
  "sidebarPath path =
     (if includes_str path ''/admin/development/'' \<or> includes_str path ''/admin/contracts/''
      then ''../../components/sidebar.html''
      else if includes_str path ''/admin/'' \<or> includes_str path ''/client/''
              \<or> includes_str path ''/docs/''
      then ''../components/sidebar.html''
      else ''components/sidebar.html'')"
proof -
  define fd where "fd = includes_str path ''/assiduousflip/admin/development/''"
  define fc where "fc = includes_str path ''/assiduousflip/admin/contracts/''"
  define fa where "fa = includes_str path ''/assiduousflip/admin/''"
  define d where "d = includes_str path ''/admin/development/''"
  define c where "c = includes_str path ''/admin/contracts/''"
  define a where "a = includes_str path ''/admin/''"
  define two where "two = ''../../components/sidebar.html''"
  define one where "one = ''../components/sidebar.html''"
  have "fd \<longrightarrow> d" "fc \<longrightarrow> c" "fa \<longrightarrow> a"
    unfolding fd_def fc_def fa_def d_def c_def a_def
    using development_in_assiduousflip [of path] contracts_in_assiduousflip [of path]
      admin_in_assiduousflip [of path]
    by blast+
  then show ?thesis
    unfolding sidebarPath_def fd_def [symmetric] fc_def [symmetric] fa_def [symmetric]
      d_def [symmetric] c_def [symmetric] a_def [symmetric] two_def [symmetric]
      one_def [symmetric]
    by auto
qed

lemma headerPath_table:
  "headerPath path =
     (if includes_str path ''/admin/development/backups/''
      then ''../../../components/admin-header.html''
      else if includes_str path ''/admin/development/'' \<or> includes_str path ''/admin/contracts/''
      then ''../../components/admin-header.html''
      else if includes_str path ''/admin/'' \<or> includes_str path ''/client/''
              \<or> includes_str path ''/docs/''
      then ''../components/admin-header.html''
      else ''components/admin-header.html'')"
proof -
  define fb where "fb = includes_str path ''/assiduousflip/admin/development/backups/''"
  define fd where "fd = includes_str path ''/assiduousflip/admin/development/''"
  define fc where "fc = includes_str path ''/assiduousflip/admin/contracts/''"
  define fa where "fa = includes_str path ''/assiduousflip/admin/''"
  define b where "b = includes_str path ''/admin/development/backups/''"
  define d where "d = includes_str path ''/admin/development/''"
  define c where "c = includes_str path ''/admin/contracts/''"
  define a where "a = includes_str path ''/admin/''"
  define three where "three = ''../../../components/admin-header.html''"
  define two where "two = ''../../components/admin-header.html''"
  define one where "one = ''../components/admin-header.html''"
  have "fb \<longrightarrow> b" "fd \<longrightarrow> d" "fc \<longrightarrow> c" "fa \<longrightarrow> a"
    unfolding fb_def fd_def fc_def fa_def b_def d_def c_def a_def
    using development_in_assiduousflip [of path] contracts_in_assiduousflip [of path]
      admin_in_assiduousflip [of path] backups_in_assiduousflip [of path]
    by blast+
  then show ?thesis
    unfolding headerPath_def fb_def [symmetric] fd_def [symmetric] fc_def [symmetric]
      fa_def [symmetric] b_def [symmetric] d_def [symmetric] c_def [symmetric]
      a_def [symmetric] three_def [symmetric] two_def [symmetric] one_def [symmetric]
    by auto
qed

text \<open>
  Claim C3. For every pathname the path heuristics return the prefix the code
  documents for each pattern. With no explicit data-base attribute, resolveBase of the
  sidebar loader returns \<open>../\<close> for a pathname containing \<open>/admin/development/\<close> or
  \<open>/admin/contracts/\<close>, the empty prefix for another pathname containing \<open>/admin/\<close>, and
  \<open>admin/\<close> otherwise, and resolveBase of the admin header returns the empty prefix;
  with an explicit data-base both return it without one trailing slash. The sidebar
  template is requested two levels up for \<open>/admin/development/\<close> and
  \<open>/admin/contracts/\<close>, one level up for another pathname containing \<open>/admin/\<close>,
  \<open>/client/\<close> or \<open>/docs/\<close>, and from the page's own directory otherwise; the admin
  header template likewise, and three levels up for \<open>/admin/development/backups/\<close>.
  The patterns prefixed by \<open>/assiduousflip\<close> fall under the same rows.
\<close>

theorem resolveBase_patterns:
  "(el ''data-base'' = Some base \<and> trim base \<noteq> [] \<longrightarrow>
      sidebar_resolveBase el path = stripTrailingSlash base
      \<and> adminHeader_resolveBase el = stripTrailingSlash base)
   \<and> (\<not> explicitBase el \<longrightarrow>
        adminHeader_resolveBase el = []
        \<and> (includes_str path ''/admin/development/'' \<longrightarrow> sidebar_resolveBase el path = ''../'')
        \<and> (includes_str path ''/admin/contracts/'' \<longrightarrow> sidebar_resolveBase el path = ''../'')
        \<and> (includes_str path ''/admin/'' \<and> \<not> includes_str path ''/admin/development/''
             \<and> \<not> includes_str path ''/admin/contracts/'' \<longrightarrow> sidebar_resolveBase el path = [])
        \<and> (\<not> includes_str path ''/admin/'' \<longrightarrow> sidebar_resolveBase el path = ''admin/''))
   \<and> (includes_str path ''/admin/development/'' \<or> includes_str path ''/admin/contracts/'' \<longrightarrow>
        sidebarPath path = ''../../components/sidebar.html'')
   \<and> ((includes_str path ''/admin/'' \<or> includes_str path ''/client/''
         \<or> includes_str path ''/docs/'')
        \<and> \<not> includes_str path ''/admin/development/''
        \<and> \<not> includes_str path ''/admin/contracts/'' \<longrightarrow>
        sidebarPath path = ''../components/sidebar.html'')
   \<and> (\<not> includes_str path ''/admin/'' \<and> \<not> includes_str path ''/client/''
        \<and> \<not> includes_str path ''/docs/'' \<longrightarrow>
        sidebarPath path = ''components/sidebar.html'')
   \<and> (includes_str path ''/admin/development/backups/'' \<longrightarrow>
        headerPath path = ''../../../components/admin-header.html'')
   \<and> ((includes_str path ''/admin/development/'' \<or> includes_str path ''/admin/contracts/'')
        \<and> \<not> includes_str path ''/admin/development/backups/'' \<longrightarrow>
        headerPath path = ''../../components/admin-header.html'')
   \<and> ((includes_str path ''/admin/'' \<or> includes_str path ''/client/''
         \<or> includes_str path ''/docs/'')
        \<and> \<not> includes_str path ''/admin/development/''
        \<and> \<not> includes_str path ''/admin/contracts/'' \<longrightarrow>
        headerPath path = ''../components/admin-header.html'')
   \<and> (\<not> includes_str path ''/admin/'' \<and> \<not> includes_str path ''/client/''
        \<and> \<not> includes_str path ''/docs/'' \<longrightarrow>
        headerPath path = ''components/admin-header.html'')"
proof -
  have r1: "el ''data-base'' = Some base \<and> trim base \<noteq> [] \<longrightarrow>
      sidebar_resolveBase el path = stripTrailingSlash base
      \<and> adminHeader_resolveBase el = stripTrailingSlash base"
  proof
    assume b: "el ''data-base'' = Some base \<and> trim base \<noteq> []"
    then have "base \<noteq> []"
      by (auto simp add: trim_def)
    with b have "explicitBase el"
      by (simp add: explicitBase_def)
    with b show "sidebar_resolveBase el path = stripTrailingSlash base
      \<and> adminHeader_resolveBase el = stripTrailingSlash base"
      by (simp add: sidebar_resolveBase_def adminHeader_resolveBase_def)
  qed
  have r2: "\<not> explicitBase el \<longrightarrow>
        adminHeader_resolveBase el = []
        \<and> (includes_str path ''/admin/development/'' \<longrightarrow> sidebar_resolveBase el path = ''../'')
        \<and> (includes_str path ''/admin/contracts/'' \<longrightarrow> sidebar_resolveBase el path = ''../'')
        \<and> (includes_str path ''/admin/'' \<and> \<not> includes_str path ''/admin/development/''
             \<and> \<not> includes_str path ''/admin/contracts/'' \<longrightarrow> sidebar_resolveBase el path = [])
        \<and> (\<not> includes_str path ''/admin/'' \<longrightarrow> sidebar_resolveBase el path = ''admin/'')"
  proof (intro impI conjI)
    assume n: "\<not> explicitBase el"
    then show "adminHeader_resolveBase el = []"
      by (simp add: adminHeader_resolveBase_def)
    show "sidebar_resolveBase el path = ''../''" if "includes_str path ''/admin/development/''"
      using n that by (simp add: sidebar_resolveBase_def)
    show "sidebar_resolveBase el path = ''../''" if "includes_str path ''/admin/contracts/''"
      using n that by (simp add: sidebar_resolveBase_def)
    show "sidebar_resolveBase el path = []"
      if "includes_str path ''/admin/'' \<and> \<not> includes_str path ''/admin/development/''
             \<and> \<not> includes_str path ''/admin/contracts/''"
      using n that by (simp add: sidebar_resolveBase_def)
    show "sidebar_resolveBase el path = ''admin/''" if a: "\<not> includes_str path ''/admin/''"
    proof -
      from a have "\<not> includes_str path ''/admin/development/''"
        and "\<not> includes_str path ''/admin/contracts/''"
        using admin_in_development [of path] admin_in_contracts [of path] by blast+
      with n a show ?thesis
        by (simp add: sidebar_resolveBase_def)
    qed
  qed
  have r3: "includes_str path ''/admin/development/'' \<or> includes_str path ''/admin/contracts/'' \<longrightarrow>
        sidebarPath path = ''../../components/sidebar.html''"
    unfolding sidebarPath_table by simp
  have r4: "(includes_str path ''/admin/'' \<or> includes_str path ''/client/''
         \<or> includes_str path ''/docs/'')
        \<and> \<not> includes_str path ''/admin/development/''
        \<and> \<not> includes_str path ''/admin/contracts/'' \<longrightarrow>
        sidebarPath path = ''../components/sidebar.html''"
    unfolding sidebarPath_table by simp
  have nd: "\<not> includes_str path ''/admin/development/''"
    and nc: "\<not> includes_str path ''/admin/contracts/''"
    and nb: "\<not> includes_str path ''/admin/development/backups/''"
    if "\<not> includes_str path ''/admin/''"
    using that admin_in_development [of path] admin_in_contracts [of path]
      development_in_backups [of path] by blast+
  have r5: "\<not> includes_str path ''/admin/'' \<and> \<not> includes_str path ''/client/''
        \<and> \<not> includes_str path ''/docs/'' \<longrightarrow>
        sidebarPath path = ''components/sidebar.html''"
  proof
    assume a: "\<not> includes_str path ''/admin/'' \<and> \<not> includes_str path ''/client/''
        \<and> \<not> includes_str path ''/docs/''"
    with nd nc show "sidebarPath path = ''components/sidebar.html''"
      unfolding sidebarPath_table by simp
  qed
  have r6: "includes_str path ''/admin/development/backups/'' \<longrightarrow>
        headerPath path = ''../../../components/admin-header.html''"
    unfolding headerPath_table by simp
  have r7: "(includes_str path ''/admin/development/'' \<or> includes_str path ''/admin/contracts/'')
        \<and> \<not> includes_str path ''/admin/development/backups/'' \<longrightarrow>
        headerPath path = ''../../components/admin-header.html''"
    unfolding headerPath_table by simp
  have r8: "(includes_str path ''/admin/'' \<or> includes_str path ''/client/''
         \<or> includes_str path ''/docs/'')
        \<and> \<not> includes_str path ''/admin/development/''
        \<and> \<not> includes_str path ''/admin/contracts/'' \<longrightarrow>
        headerPath path = ''../components/admin-header.html''"
  proof
    assume a: "(includes_str path ''/admin/'' \<or> includes_str path ''/client/''
         \<or> includes_str path ''/docs/'')
        \<and> \<not> includes_str path ''/admin/development/''
        \<and> \<not> includes_str path ''/admin/contracts/''"
    then have "\<not> includes_str path ''/admin/development/backups/''"
      using development_in_backups [of path] by blast
    with a show "headerPath path = ''../components/admin-header.html''"
      unfolding headerPath_table by simp
  qed
  have r9: "\<not> includes_str path ''/admin/'' \<and> \<not> includes_str path ''/client/''
        \<and> \<not> includes_str path ''/docs/'' \<longrightarrow>
        headerPath path = ''components/admin-header.html''"
  proof
    assume a: "\<not> includes_str path ''/admin/'' \<and> \<not> includes_str path ''/client/''
        \<and> \<not> includes_str path ''/docs/''"
    with nd nc nb show "headerPath path = ''components/admin-header.html''"
      unfolding headerPath_table by simp
  qed
  show ?thesis
    by (intro conjI r1 r2 r3 r4 r5 r6 r7 r8 r9)
qed


text \<open>
  A page of the development folder, one of its backups folder, a page of the admin
  root, the home page, and a placeholder that names its base.
\<close>

theorem resolveBase_patterns_witness:
  "sidebar_resolveBase (elementOf [(''data-active'', ''costs'')]) ''/admin/development/costs.html''
     = ''../''
   \<and> sidebarPath ''/admin/development/costs.html'' = ''../../components/sidebar.html''
   \<and> headerPath ''/admin/development/costs.html'' = ''../../components/admin-header.html''
   \<and> headerPath ''/admin/development/backups/index.html''
       = ''../../../components/admin-header.html''
   \<and> sidebar_resolveBase (elementOf [(''data-active'', ''dashboard'')]) ''/admin/dashboard.html''
       = []
   \<and> sidebarPath ''/admin/dashboard.html'' = ''../components/sidebar.html''
   \<and> headerPath ''/admin/dashboard.html'' = ''../components/admin-header.html''
   \<and> sidebar_resolveBase (elementOf []) ''/index.html'' = ''admin/''
   \<and> sidebarPath ''/index.html'' = ''components/sidebar.html''
   \<and> headerPath ''/index.html'' = ''components/admin-header.html''
   \<and> adminHeader_resolveBase (elementOf []) = []
   \<and> sidebar_resolveBase (elementOf [(''data-base'', ''/site/admin/'')]) ''/index.html''
       = ''/site/admin''"
proof -
  have a: "sidebar_resolveBase (elementOf [(''data-active'', ''costs'')])
             ''/admin/development/costs.html'' = ''../''
   \<and> sidebarPath ''/admin/development/costs.html'' = ''../../components/sidebar.html''
   \<and> headerPath ''/admin/development/costs.html'' = ''../../components/admin-header.html''"
    using resolveBase_patterns [of "elementOf [(''data-active'', ''costs'')]" "[]"
        "''/admin/development/costs.html''"]
    by (simp add: explicitBase_def elementOf_def)
  have b: "headerPath ''/admin/development/backups/index.html''
       = ''../../../components/admin-header.html''"
    using resolveBase_patterns [of "elementOf []" "[]" "''/admin/development/backups/index.html''"]
    by simp
  have c: "sidebar_resolveBase (elementOf [(''data-active'', ''dashboard'')])
             ''/admin/dashboard.html'' = []
   \<and> sidebarPath ''/admin/dashboard.html'' = ''../components/sidebar.html''
   \<and> headerPath ''/admin/dashboard.html'' = ''../components/admin-header.html''"
    using resolveBase_patterns [of "elementOf [(''data-active'', ''dashboard'')]" "[]"
        "''/admin/dashboard.html''"]
    by (simp add: explicitBase_def elementOf_def)
  have d: "sidebar_resolveBase (elementOf []) ''/index.html'' = ''admin/''
   \<and> sidebarPath ''/index.html'' = ''components/sidebar.html''
   \<and> headerPath ''/index.html'' = ''components/admin-header.html''
   \<and> adminHeader_resolveBase (elementOf []) = []"
    using resolveBase_patterns [of "elementOf []" "[]" "''/index.html''"]
    by (simp add: explicitBase_def elementOf_def)
  have e: "sidebar_resolveBase (elementOf [(''data-base'', ''/site/admin/'')]) ''/index.html''
       = ''/site/admin''"
    using resolveBase_patterns [of "elementOf [(''data-base'', ''/site/admin/'')]"
        "''/site/admin/''" "''/index.html''"]
    by (simp add: elementOf_def trim_def isSpace_def stripTrailingSlash_def)
  from a b c d e show ?thesis
    by (intro conjI) (elim conjE, assumption)+
qed

subsection \<open>The fallback header\<close>

lemma sublist_join_lines: "l \<in> set ls \<Longrightarrow> sublist l (join_lines ls)"
proof (induction ls rule: join_lines.induct)
  case 1
  then show ?case by simp
next
  case (2 l')
  then show ?case by simp
next
  case (3 l' v va)
  show ?case
  proof (cases "l = l'")
    case True
    then show ?thesis
      using sublist_appendI [of l "[]" "nl # join_lines (v # va)"] by simp
  next
    case False
    with 3 have "sublist l (join_lines (v # va))" by simp
    moreover have "sublist (join_lines (v # va)) ((l' @ [nl]) @ join_lines (v # va))"
      by (rule sublist_append_leftI)
    ultimately have "sublist l ((l' @ [nl]) @ join_lines (v # va))"
      by (rule sublist_order.order_trans)
    then show ?thesis by simp
  qed
qed

lemma includes_str_in_line:
  assumes "l \<in> set ls" and "l = pre @ p @ post"
  shows "includes_str (join_lines ls) p"
proof -
  have "sublist p l"
    unfolding assms(2) by (rule sublist_appendI)
  also have "sublist l (join_lines ls)"
    using assms(1) by (rule sublist_join_lines)
  finally show ?thesis
    by (simp add: includes_str_sublist)
qed

lemma includes_str_at_line:
  assumes "n < length ls" and "ls ! n = pre @ p @ post"
  shows "includes_str (join_lines ls) p"
proof -
  from assms(1) have "ls ! n \<in> set ls"
    by (rule nth_mem)
  then show ?thesis
    using assms(2) by (rule includes_str_in_line)
qed

lemma prefix_join_lines:
  assumes "prefix x l"
  shows "prefix (nl # x) (join_lines ([] # l # ls))"
proof -
  have "prefix l (join_lines (l # ls))"
    by (cases ls) simp_all
  with assms have "prefix x (join_lines (l # ls))"
    by (rule prefix_order.order_trans)
  then show ?thesis by simp
qed

lemma join_lines_two_last:
  "join_lines (ms @ [a, b]) = (if ms = [] then [] else join_lines ms @ [nl]) @ a @ nl # b"
proof (induction ms rule: join_lines.induct)
  case 1
  show ?case by simp
next
  case (2 l)
  show ?case by simp
next
  case (3 l v va)
  then show ?case by simp
qed

lemma suffix_join_lines_at:
  assumes "length ls = Suc (Suc n)" and "ls ! n = y @ x" and "ls ! Suc n = b"
  shows "suffix (x @ nl # b) (join_lines ls)"
proof -
  have "n < length ls" and "Suc n < length ls"
    using assms(1) by simp_all
  then have "drop n ls = ls ! n # drop (Suc n) ls"
    and "drop (Suc n) ls = ls ! Suc n # drop (Suc (Suc n)) ls"
    using Cons_nth_drop_Suc [of n ls] Cons_nth_drop_Suc [of "Suc n" ls] by simp_all
  then have "drop n ls = [y @ x, b]"
    using assms by simp
  then have "ls = take n ls @ [y @ x, b]"
    by (metis append_take_drop_id)
  then have "join_lines ls
             = ((if take n ls = [] then [] else join_lines (take n ls) @ [nl]) @ y) @ x @ nl # b"
    using join_lines_two_last [of "take n ls" "y @ x" b] by simp
  then show ?thesis
    by (rule suffixI)
qed

text \<open>
  Claim C6. Whenever the page has the root element and the fetch of the template
  fails, by a network error or by a response whose status is not OK, the universal
  header loader logs the error and puts the hardcoded fallback header in place of the
  root element: the markup below, a closed \<open>header\<close> element whose four navigation
  links are built on the resolved base. The page is not left without a header, and
  nothing is raised.
\<close>

theorem universalHeader_fallback_on_failed_fetch:
  assumes "page_root pg = Some root"
    and "fetched = FetchRejected
         \<or> (\<exists>status body. fetched = Response status body \<and> \<not> (200 \<le> status \<and> status \<le> 299))"
    and "base = universalHeader_resolveBase (page_script pg) (page_origin pg) (page_pathname pg)"
  shows "\<exists>markup. universalHeader_injectHeader parse renders wires pg fetched
           = (Fallback markup, Some (fst (universalHeader_readConfig parse root base)),
              snd (universalHeader_readConfig parse root base)
              @ [Error ''Failed to load universal header:''])
         \<and> markup = join_lines
             ['''',
              ''        <header class=\"universal-header public-header\" style=\"background: white; border-bottom: 1px solid #e5e7eb; padding: 1rem 1.5rem; display: flex; justify-content: space-between; align-items: center;\">'',
              ''          <div style=\"display: flex; align-items: center; gap: 0.5rem;\">'',
              ''            <svg width=\"24\" height=\"24\" viewBox=\"0 0 24 24\" fill=\"none\" stroke=\"#60A3D9\" stroke-width=\"2\">'',
              ''              <path d=\"M3 9l9-7 9 7v11a2 2 0 0 1-2 2H5a2 2 0 0 1-2-2z\"></path>'',
              ''              <polyline points=\"9 22 9 12 15 12 15 22\"></polyline>'',
              ''            </svg>'',
              ''            <div>'',
              ''              <span style=\"font-size: 1.125rem; font-weight: 700; color: #111827;\">Assiduous</span><br>'',
              ''              <span style=\"font-size: 0.75rem; color: #6b7280; text-transform: uppercase; letter-spacing: 0.05em;\">Properties</span>'',
              ''            </div>'',
              ''          </div>'',
              ''          <div style=\"display: flex; align-items: center; gap: 1rem;\">'',
              ''            <nav style=\"display: flex; gap: 1.5rem;\">'',
              ''              <a href=\"'' @ base @ ''/\" style=\"color: #6b7280; text-decoration: none; font-size: 0.875rem;\">Home</a>'',
              ''              <a href=\"'' @ base @ ''/properties.html\" style=\"color: #6b7280; text-decoration: none; font-size: 0.875rem;\">Properties</a>'',
              ''              <a href=\"'' @ base @ ''/agents.html\" style=\"color: #6b7280; text-decoration: none; font-size: 0.875rem;\">Find Agents</a>'',
              ''              <a href=\"'' @ base @ ''/about.html\" style=\"color: #6b7280; text-decoration: none; font-size: 0.875rem;\">About</a>'',
              ''            </nav>'',
              ''            <div style=\"display: flex; gap: 0.75rem;\">'',
              ''              <a href=\"#\" onclick=\"showLogin()\" style=\"color: #6b7280; text-decoration: none; font-size: 0.875rem;\">Sign In</a>'',
              ''              <a href=\"#\" onclick=\"showSignup()\" style=\"background: #60A3D9; color: white; padding: 0.5rem 1rem; border-radius: 0.375rem; text-decoration: none; font-size: 0.875rem;\">Get Started</a>'',
              ''            </div>'',
              ''          </div>'',
              ''        </header>'',
              ''      '']
         \<and> prefix (nl # ''        <header class=\"universal-header public-header\"'') markup
         \<and> suffix (''</header>'' @ nl # ''      '') markup
         \<and> includes_str markup (''<a href=\"'' @ base @ ''/\"'')
         \<and> includes_str markup (''<a href=\"'' @ base @ ''/properties.html\"'')
         \<and> includes_str markup (''<a href=\"'' @ base @ ''/agents.html\"'')
         \<and> includes_str markup (''<a href=\"'' @ base @ ''/about.html\"'')"
proof -
  have run: "universalHeader_injectHeader parse renders wires pg fetched
           = (Fallback (fallbackHtml base), Some (fst (universalHeader_readConfig parse root base)),
              snd (universalHeader_readConfig parse root base)
              @ [Error ''Failed to load universal header:''])"
    using assms
    by (auto simp add: universalHeader_injectHeader_def Let_def split: prod.splits)
  have p: "prefix (nl # ''        <header class=\"universal-header public-header\"'')
             (fallbackHtml base)"
    unfolding fallbackHtml_def by (rule prefix_join_lines) simp
  have s: "suffix (''</header>'' @ nl # ''      '') (fallbackHtml base)"
    unfolding fallbackHtml_def by (rule suffix_join_lines_at [where n = 24 and y = "''        ''"]) simp_all
  have home: "includes_str (fallbackHtml base) (''<a href=\"'' @ base @ ''/\"'')"
    unfolding fallbackHtml_def
    by (rule includes_str_at_line [where n = 14 and pre = "''              ''"
          and post = "'' style=\"color: #6b7280; text-decoration: none; font-size: 0.875rem;\">Home</a>''"])
      simp_all
  have properties: "includes_str (fallbackHtml base) (''<a href=\"'' @ base @ ''/properties.html\"'')"
    unfolding fallbackHtml_def
    by (rule includes_str_at_line [where n = 15 and pre = "''              ''"
          and post = "'' style=\"color: #6b7280; text-decoration: none; font-size: 0.875rem;\">Properties</a>''"])
      simp_all
  have agents: "includes_str (fallbackHtml base) (''<a href=\"'' @ base @ ''/agents.html\"'')"
    unfolding fallbackHtml_def
    by (rule includes_str_at_line [where n = 16 and pre = "''              ''"
          and post = "'' style=\"color: #6b7280; text-decoration: none; font-size: 0.875rem;\">Find Agents</a>''"])
      simp_all
  have about: "includes_str (fallbackHtml base) (''<a href=\"'' @ base @ ''/about.html\"'')"
    unfolding fallbackHtml_def
    by (rule includes_str_at_line [where n = 17 and pre = "''              ''"
          and post = "'' style=\"color: #6b7280; text-decoration: none; font-size: 0.875rem;\">About</a>''"])
      simp_all
  have lit: "fallbackHtml base = join_lines
                  ['''',
                   ''        <header class=\"universal-header public-header\" style=\"background: white; border-bottom: 1px solid #e5e7eb; padding: 1rem 1.5rem; display: flex; justify-content: space-between; align-items: center;\">'',
                   ''          <div style=\"display: flex; align-items: center; gap: 0.5rem;\">'',
                   ''            <svg width=\"24\" height=\"24\" viewBox=\"0 0 24 24\" fill=\"none\" stroke=\"#60A3D9\" stroke-width=\"2\">'',
                   ''              <path d=\"M3 9l9-7 9 7v11a2 2 0 0 1-2 2H5a2 2 0 0 1-2-2z\"></path>'',
                   ''              <polyline points=\"9 22 9 12 15 12 15 22\"></polyline>'',
                   ''            </svg>'',
                   ''            <div>'',
                   ''              <span style=\"font-size: 1.125rem; font-weight: 700; color: #111827;\">Assiduous</span><br>'',
                   ''              <span style=\"font-size: 0.75rem; color: #6b7280; text-transform: uppercase; letter-spacing: 0.05em;\">Properties</span>'',
                   ''            </div>'',
                   ''          </div>'',
                   ''          <div style=\"display: flex; align-items: center; gap: 1rem;\">'',
                   ''            <nav style=\"display: flex; gap: 1.5rem;\">'',
                   ''              <a href=\"'' @ base @ ''/\" style=\"color: #6b7280; text-decoration: none; font-size: 0.875rem;\">Home</a>'',
                   ''              <a href=\"'' @ base @ ''/properties.html\" style=\"color: #6b7280; text-decoration: none; font-size: 0.875rem;\">Properties</a>'',
                   ''              <a href=\"'' @ base @ ''/agents.html\" style=\"color: #6b7280; text-decoration: none; font-size: 0.875rem;\">Find Agents</a>'',
                   ''              <a href=\"'' @ base @ ''/about.html\" style=\"color: #6b7280; text-decoration: none; font-size: 0.875rem;\">About</a>'',
                   ''            </nav>'',
                   ''            <div style=\"display: flex; gap: 0.75rem;\">'',
                   ''              <a href=\"#\" onclick=\"showLogin()\" style=\"color: #6b7280; text-decoration: none; font-size: 0.875rem;\">Sign In</a>'',
                   ''              <a href=\"#\" onclick=\"showSignup()\" style=\"background: #60A3D9; color: white; padding: 0.5rem 1rem; border-radius: 0.375rem; text-decoration: none; font-size: 0.875rem;\">Get Started</a>'',
                   ''            </div>'',
                   ''          </div>'',
                   ''        </header>'',
                   ''      '']"
    by (rule fallbackHtml_def)
  show ?thesis
    apply (rule exI [of _ "fallbackHtml base"])
    apply (intro conjI)
           apply (rule run)
          apply (rule lit)
         apply (rule p)
        apply (rule s)
       apply (rule home)
      apply (rule properties)
     apply (rule agents)
    apply (rule about)
    done
qed


lemma cdnPage_base:
  "universalHeader_resolveBase (page_script cdnPage) (page_origin cdnPage) (page_pathname cdnPage)
   = ''https://cdn.example/app''"
  unfolding cdnPage_def by code_simp

theorem universalHeader_fallback_on_failed_fetch_witness:
  "\<exists>markup.
      fst (universalHeader_injectHeader rejectsEarly (\<lambda>html. True) (\<lambda>html config. True) cdnPage
             (Response 404 (Some ''Not Found''))) = Fallback markup
    \<and> fst (universalHeader_injectHeader rejectsEarly (\<lambda>html. True) (\<lambda>html config. True) cdnPage
             FetchRejected) = Fallback markup
    \<and> prefix (nl # ''        <header class=\"universal-header public-header\"'') markup
    \<and> suffix (''</header>'' @ nl # ''      '') markup
    \<and> includes_str markup ''<a href=\"https://cdn.example/app/\"''
    \<and> includes_str markup ''<a href=\"https://cdn.example/app/properties.html\"''
    \<and> includes_str markup ''<a href=\"https://cdn.example/app/agents.html\"''
    \<and> includes_str markup ''<a href=\"https://cdn.example/app/about.html\"''"
proof -
  have r: "page_root cdnPage
           = Some (elementOf [(''data-type'', ''admin''), (''data-title'', ''Dashboard'')])"
    by (simp add: cdnPage_def)
  have f: "Response 404 (Some ''Not Found'') = FetchRejected
           \<or> (\<exists>status body. Response 404 (Some ''Not Found'') = Response status body
                 \<and> \<not> (200 \<le> status \<and> status \<le> 299))"
    by simp
  have g: "FetchRejected = FetchRejected
           \<or> (\<exists>status body. FetchRejected = Response status body
                 \<and> \<not> (200 \<le> status \<and> status \<le> 299))"
    by simp
  have b: "''https://cdn.example/app''
           = universalHeader_resolveBase (page_script cdnPage) (page_origin cdnPage)
               (page_pathname cdnPage)"
    by (rule cdnPage_base [symmetric])
  from universalHeader_fallback_on_failed_fetch [OF r f b, of rejectsEarly "\<lambda>html. True"
      "\<lambda>html config. True"]
  obtain markup where
    m1: "fst (universalHeader_injectHeader rejectsEarly (\<lambda>html. True) (\<lambda>html config. True) cdnPage
             (Response 404 (Some ''Not Found''))) = Fallback markup" and
    m2: "markup = fallbackHtml ''https://cdn.example/app''" and
    m3: "prefix (nl # ''        <header class=\"universal-header public-header\"'') markup" and
    m4: "suffix (''</header>'' @ nl # ''      '') markup" and
    m5: "includes_str markup (''<a href=\"'' @ ''https://cdn.example/app'' @ ''/\"'')" and
    m6: "includes_str markup (''<a href=\"'' @ ''https://cdn.example/app''
                               @ ''/properties.html\"'')" and
    m7: "includes_str markup (''<a href=\"'' @ ''https://cdn.example/app'' @ ''/agents.html\"'')" and
    m8: "includes_str markup (''<a href=\"'' @ ''https://cdn.example/app'' @ ''/about.html\"'')"
    unfolding fallbackHtml_def [symmetric] by (elim exE conjE) simp
  from universalHeader_fallback_on_failed_fetch [OF r g b, of rejectsEarly "\<lambda>html. True"
      "\<lambda>html config. True"]
  have n1: "fst (universalHeader_injectHeader rejectsEarly (\<lambda>html. True) (\<lambda>html config. True) cdnPage
             FetchRejected) = Fallback markup"
    unfolding fallbackHtml_def [symmetric] m2 by (elim exE conjE) simp
  from m5 have m5': "includes_str markup ''<a href=\"https://cdn.example/app/\"''"
    by simp
  from m6 have m6': "includes_str markup ''<a href=\"https://cdn.example/app/properties.html\"''"
    by simp
  from m7 have m7': "includes_str markup ''<a href=\"https://cdn.example/app/agents.html\"''"
    by simp
  from m8 have m8': "includes_str markup ''<a href=\"https://cdn.example/app/about.html\"''"
    by simp
  show ?thesis
    by (intro exI [of _ markup] conjI m1 n1 m3 m4 m5' m6' m7' m8')
qed

subsection \<open>Replacing the base token\<close>

lemma matchesAt_literally: "matchesAt (literally t) s \<longleftrightarrow> prefix t s"
proof -
  have "list_all2 (\<lambda>p c. p c) (map (\<lambda>c x. x = c) t) ys \<longleftrightarrow> ys = t" for ys
    by (auto simp add: list_all2_map1 list_all2_conv_all_nth list_eq_iff_nth_eq)
  then have "matchesAt (literally t) s \<longleftrightarrow> length t \<le> length s \<and> take (length t) s = t"
    by (simp add: matchesAt_def literally_def)
  also have "\<dots> \<longleftrightarrow> prefix t s"
    by (metis append_eq_conv_conj prefix_def prefix_length_le)
  finally show ?thesis .
qed

lemma replaceFrom_at_token:
  assumes "t \<noteq> []"
  shows "replaceFrom (literally t) f b (t @ rest)
         = f t b rest @ replaceFrom (literally t) f (b @ t) rest"
proof -
  have "matchesAt (literally t) (t @ rest)" and "literally t \<noteq> []"
    and "length (literally t) = length t"
    using assms by (simp_all add: matchesAt_literally) (simp_all add: literally_def)
  then show ?thesis
    by (subst replaceFrom.simps) simp
qed

lemma replaceFrom_step:
  assumes "\<not> prefix t (c # cs)"
  shows "replaceFrom (literally t) f b (c # cs) = c # replaceFrom (literally t) f (b @ [c]) cs"
  using assms
  by (subst replaceFrom.simps) (simp add: matchesAt_literally)

lemma replaceFrom_end: "replaceFrom pat f b [] = []"
  by (subst replaceFrom.simps) (simp add: matchesAt_def)

lemma replaceFrom_segment:
  assumes "CHR ''['' \<notin> set seg"
  shows "replaceFrom (literally ''[[BASE]]'') f b (seg @ rest)
         = seg @ replaceFrom (literally ''[[BASE]]'') f (b @ seg) rest"
  using assms
proof (induction seg arbitrary: b)
  case Nil
  then show ?case by simp
next
  case (Cons c seg)
  then have "\<not> prefix ''[[BASE]]'' (c # seg @ rest)" by auto
  then have "replaceFrom (literally ''[[BASE]]'') f b (c # seg @ rest)
             = c # replaceFrom (literally ''[[BASE]]'') f (b @ [c]) (seg @ rest)"
    by (rule replaceFrom_step)
  with Cons show ?case by simp
qed

lemma getSubstitution_plain:
  "CHR ''$'' \<notin> set template \<Longrightarrow> getSubstitution template matched b a = template"
  by (induction template matched b a rule: getSubstitution.induct) auto

lemma replaceFrom_joined:
  assumes "\<forall>s\<in>set segments. CHR ''['' \<notin> set s" and "CHR ''$'' \<notin> set base"
  shows "replaceFrom (literally ''[[BASE]]'') (getSubstitution base) b (joinWith ''[[BASE]]'' segments)
         = joinWith base segments"
  using assms(1)
proof (induction segments arbitrary: b)
  case Nil
  show ?case by (simp add: replaceFrom_end)
next
  case (Cons s ss)
  then have s: "CHR ''['' \<notin> set s" and rest: "\<forall>x\<in>set ss. CHR ''['' \<notin> set x"
    by simp_all
  show ?case
  proof (cases ss)
    case Nil
    from replaceFrom_segment [OF s, of _ _ "[]"] Nil show ?thesis
      by (simp add: replaceFrom_end)
  next
    case (Cons s' ss')
    have "replaceFrom (literally ''[[BASE]]'') (getSubstitution base) b
            (s @ ''[[BASE]]'' @ joinWith ''[[BASE]]'' ss)
          = s @ replaceFrom (literally ''[[BASE]]'') (getSubstitution base) (b @ s)
                  (''[[BASE]]'' @ joinWith ''[[BASE]]'' ss)"
      by (rule replaceFrom_segment [OF s])
    also have "\<dots> = s @ getSubstitution base ''[[BASE]]'' (b @ s) (joinWith ''[[BASE]]'' ss)
                      @ replaceFrom (literally ''[[BASE]]'') (getSubstitution base)
                          ((b @ s) @ ''[[BASE]]'') (joinWith ''[[BASE]]'' ss)"
      by (subst replaceFrom_at_token) simp_all
    also have "\<dots> = s @ base @ joinWith base ss"
      using Cons.IH [OF rest, of "(b @ s) @ ''[[BASE]]''"]
        getSubstitution_plain [OF assms(2), of "''[[BASE]]''" "b @ s" "joinWith ''[[BASE]]'' ss"]
      by simp
    finally show ?thesis using Cons by simp
  qed
qed

text \<open>
  What the admin header and the sidebar do with a template: the texts between the
  tokens are joined by the base (a base without \<open>$\<close>, which \<open>replace\<close> would read as a
  pattern).
\<close>

lemma replaceBaseToken_joined:
  assumes "\<forall>s\<in>set segments. CHR ''['' \<notin> set s" and "CHR ''$'' \<notin> set base"
  shows "replaceBaseToken (joinWith ''[[BASE]]'' segments) base = joinWith base segments"
  unfolding replaceBaseToken_def replaceGlobal_def
  by (rule replaceFrom_joined [OF assms])

text \<open>
  The token expressions of the universal header begin with a backslash, so a template
  without backslashes passes through processTokens unchanged, tokens included.
\<close>

lemma doubledBackslashToken_head:
  "matchesAt (doubledBackslashToken inner) s \<Longrightarrow> s \<noteq> [] \<and> hd s = backslash"
  by (cases s) (auto simp add: matchesAt_def doubledBackslashToken_def)

lemma replaceFrom_no_backslash:
  assumes "backslash \<notin> set s"
  shows "replaceFrom (doubledBackslashToken inner) f b s = s"
  using assms
proof (induction s arbitrary: b)
  case Nil
  show ?case by (simp add: replaceFrom_end)
next
  case (Cons c s)
  then have "\<not> matchesAt (doubledBackslashToken inner) (c # s)"
    by (auto dest: doubledBackslashToken_head)
  then have "replaceFrom (doubledBackslashToken inner) f b (c # s)
             = c # replaceFrom (doubledBackslashToken inner) f (b @ [c]) s"
    by (subst replaceFrom.simps) simp
  with Cons show ?case by simp
qed

lemma processTokens_without_backslash:
  "backslash \<notin> set html \<Longrightarrow> processTokens html config = html"
  by (simp add: processTokens_def Let_def replaceGlobal_def baseTokenRegex_def typeTokenRegex_def
      titleTokenRegex_def subtitleTokenRegex_def searchPlaceholderTokenRegex_def
      userNameTokenRegex_def replaceFrom_no_backslash)

text \<open>
  Claim C5, at a template of the kind the loaders fetch. The page loads the universal
  header from \<open>https://cdn.example/app\<close> and the template arrives with status 200.
  The claim asks for the link \<open>https://cdn.example/app/index.html\<close>, which is what
  the admin header and the sidebar make of the same template on the same base; the
  universal header injects the template as it came, with its \<open>[[BASE]]\<close> token.
\<close>

theorem universalHeader_keeps_base_token:
  "universalHeader_resolveBase (page_script cdnPage) (page_origin cdnPage) (page_pathname cdnPage)
     = ''https://cdn.example/app''
   \<and> fst (universalHeader_injectHeader rejectsEarly (\<lambda>html. True) (\<lambda>html config. True) cdnPage
          (Response 200 (Some ''<header><a href=\"[[BASE]]/index.html\">Home</a></header>'')))
     = Injected ''<header><a href=\"[[BASE]]/index.html\">Home</a></header>''
   \<and> includes_str ''<header><a href=\"[[BASE]]/index.html\">Home</a></header>'' ''[[BASE]]''
   \<and> replaceBaseToken ''<header><a href=\"[[BASE]]/index.html\">Home</a></header>''
        ''https://cdn.example/app''
     = ''<header><a href=\"https://cdn.example/app/index.html\">Home</a></header>''
   \<and> fst (injectSidebar ''https://cdn.example/app'' 200
          ''<header><a href=\"[[BASE]]/index.html\">Home</a></header>'')
     = ReplacedBy ''<aside class=\"sidebar\" data-base=\"https://cdn.example/app\"><header><a href=\"https://cdn.example/app/index.html\">Home</a></header></aside>''"
  unfolding cdnPage_def by code_simp

text \<open>
  The same holds for every template without a backslash that the browser renders: the
  universal header injects it unchanged, whatever the base.
\<close>

lemma universalHeader_injects_template_unchanged:
  assumes "page_root pg = Some root" and "200 \<le> status" and "status \<le> 299"
    and "backslash \<notin> set html" and "renders html"
  shows "fst (universalHeader_injectHeader parse renders wires pg (Response status (Some html)))
         = Injected html"
  using assms
  by (auto simp add: universalHeader_injectHeader_def Let_def processTokens_without_backslash
      split: prod.splits)

subsection \<open>The actions attribute\<close>

lemma attrOr_other:
  "name \<noteq> ''data-actions'' \<Longrightarrow> attrOr (root(''data-actions'' := None)) name d = attrOr root name d"
  by (simp add: attrOr_def)

text \<open>
  Claim C8, as amended. For every value of data-actions that is empty or that
  \<open>JSON.parse\<close> rejects, the admin header and the universal header leave the actions
  the empty list, take title, subtitle and search placeholder from their attributes
  or defaults, and go on to inject exactly what they inject for the same element
  without the attribute. They log one warning when the value is not empty, and none
  when it is empty.
\<close>

theorem invalid_actions_warn_and_continue:
  assumes "root ''data-actions'' = Some actionsData"
    and "actionsData = [] \<or> parse actionsData = None"
  shows "adminHeader_parseConfig parse root
           = (\<lparr>adm_title = attrOr root ''data-title'' ''Admin Portal'',
               adm_subtitle = attrOr root ''data-subtitle'' ''Manage your platform efficiently'',
               adm_searchPlaceholder =
                 attrOr root ''data-search-placeholder'' ''Search across all modules...'',
               adm_actions = EmptyList\<rparr>,
              if actionsData = [] then [] else [Warn ''Failed to parse header actions:''])
       \<and> fst (adminHeader_onReady parse (Some root) status responseText)
           = fst (adminHeader_onReady parse (Some (root(''data-actions'' := None))) status responseText)
       \<and> fst (snd (adminHeader_onReady parse (Some root) status responseText))
           = fst (snd (adminHeader_onReady parse (Some (root(''data-actions'' := None))) status
                         responseText))
       \<and> universalHeader_readConfig parse root base
           = (\<lparr>cfg_base = base,
               cfg_type = attrOr root ''data-type'' ''public'',
               cfg_title = attrOr root ''data-title'' ''Assiduous Properties'',
               cfg_subtitle = attrOr root ''data-subtitle'' [],
               cfg_userName = attrOr root ''data-user-name'' ''User'',
               cfg_searchPlaceholder = attrOr root ''data-search-placeholder'' ''Search...'',
               cfg_showAuth = (root ''data-show-auth'' = Some ''true''),
               cfg_actions = EmptyList\<rparr>,
              if actionsData = [] then [] else [Warn ''Failed to parse data-actions:''])
       \<and> fst (universalHeader_injectHeader parse renders wires (pg\<lparr>page_root := Some root\<rparr>)
                fetched)
           = fst (universalHeader_injectHeader parse renders wires
                    (pg\<lparr>page_root := Some (root(''data-actions'' := None))\<rparr>) fetched)
       \<and> fst (snd (universalHeader_injectHeader parse renders wires (pg\<lparr>page_root := Some root\<rparr>)
                     fetched))
           = fst (snd (universalHeader_injectHeader parse renders wires
                         (pg\<lparr>page_root := Some (root(''data-actions'' := None))\<rparr>) fetched))"
proof -
  have a: "adminHeader_parseConfig parse root
           = (\<lparr>adm_title = attrOr root ''data-title'' ''Admin Portal'',
               adm_subtitle = attrOr root ''data-subtitle'' ''Manage your platform efficiently'',
               adm_searchPlaceholder =
                 attrOr root ''data-search-placeholder'' ''Search across all modules...'',
               adm_actions = EmptyList\<rparr>,
              if actionsData = [] then [] else [Warn ''Failed to parse header actions:''])"
    using assms by (auto simp add: adminHeader_parseConfig_def)
  have a': "fst (adminHeader_parseConfig parse (root(''data-actions'' := None)))
            = fst (adminHeader_parseConfig parse root)"
    unfolding a by (simp add: adminHeader_parseConfig_def attrOr_other)
  have b: "adminHeader_resolveBase (root(''data-actions'' := None)) = adminHeader_resolveBase root"
    by (simp add: adminHeader_resolveBase_def explicitBase_def)
  have u: "universalHeader_readConfig parse root base
           = (\<lparr>cfg_base = base,
               cfg_type = attrOr root ''data-type'' ''public'',
               cfg_title = attrOr root ''data-title'' ''Assiduous Properties'',
               cfg_subtitle = attrOr root ''data-subtitle'' [],
               cfg_userName = attrOr root ''data-user-name'' ''User'',
               cfg_searchPlaceholder = attrOr root ''data-search-placeholder'' ''Search...'',
               cfg_showAuth = (root ''data-show-auth'' = Some ''true''),
               cfg_actions = EmptyList\<rparr>,
              if actionsData = [] then [] else [Warn ''Failed to parse data-actions:''])" for base
    using assms by (auto simp add: universalHeader_readConfig_def)
  have u': "fst (universalHeader_readConfig parse (root(''data-actions'' := None)) base)
            = fst (universalHeader_readConfig parse root base)" for base
    unfolding u by (simp add: universalHeader_readConfig_def attrOr_other)
  have c: "fst (adminHeader_onReady parse (Some root) status responseText)
           = fst (adminHeader_onReady parse (Some (root(''data-actions'' := None))) status responseText)
       \<and> fst (snd (adminHeader_onReady parse (Some root) status responseText))
           = fst (snd (adminHeader_onReady parse (Some (root(''data-actions'' := None))) status
                         responseText))"
    using a' b
    by (auto simp add: adminHeader_onReady_def adminHeader_injectHeader_def Let_def
        split: prod.splits)
  have d: "fst (universalHeader_injectHeader parse renders wires (pg\<lparr>page_root := Some root\<rparr>)
                fetched)
           = fst (universalHeader_injectHeader parse renders wires
                    (pg\<lparr>page_root := Some (root(''data-actions'' := None))\<rparr>) fetched)
       \<and> fst (snd (universalHeader_injectHeader parse renders wires (pg\<lparr>page_root := Some root\<rparr>)
                     fetched))
           = fst (snd (universalHeader_injectHeader parse renders wires
                         (pg\<lparr>page_root := Some (root(''data-actions'' := None))\<rparr>) fetched))"
    using u' [of "universalHeader_resolveBase (page_script pg) (page_origin pg) (page_pathname pg)"]
    by (auto simp add: universalHeader_injectHeader_def Let_def
        split: prod.splits fetch_result.splits option.splits)
  from a c u d show ?thesis by simp
qed

theorem invalid_actions_warn_and_continue_witness:
  "rejectsEarly ''label: Export'' = None
   \<and> snd (adminHeader_parseConfig rejectsEarly brokenActions)
       = [Warn ''Failed to parse header actions:'']
   \<and> adm_actions (fst (adminHeader_parseConfig rejectsEarly brokenActions)) = EmptyList
   \<and> adm_title (fst (adminHeader_parseConfig rejectsEarly brokenActions)) = ''Dashboard''
   \<and> snd (universalHeader_readConfig rejectsEarly brokenActions ''/base'')
       = [Warn ''Failed to parse data-actions:'']
   \<and> cfg_title (fst (universalHeader_readConfig rejectsEarly brokenActions ''/base'')) = ''Dashboard''
   \<and> snd (adminHeader_parseConfig rejectsEarly emptyActions) = []
   \<and> adm_actions (fst (adminHeader_parseConfig rejectsEarly emptyActions)) = EmptyList
   \<and> adm_title (fst (adminHeader_parseConfig rejectsEarly emptyActions)) = ''Dashboard''
   \<and> snd (universalHeader_readConfig rejectsEarly emptyActions ''/base'') = []
   \<and> cfg_actions (fst (universalHeader_readConfig rejectsEarly emptyActions ''/base''))
       = EmptyList"
proof -
  have r: "brokenActions ''data-actions'' = Some ''label: Export''"
    by (simp add: brokenActions_def elementOf_def)
  have p: "rejectsEarly ''label: Export'' = None"
    by (simp add: rejectsEarly_def)
  then have n: "''label: Export'' = [] \<or> rejectsEarly ''label: Export'' = None"
    by (rule disjI2)
  have t: "attrOr brokenActions ''data-title'' ''Admin Portal'' = ''Dashboard''"
    "attrOr brokenActions ''data-title'' ''Assiduous Properties'' = ''Dashboard''"
    by (simp_all add: brokenActions_def elementOf_def attrOr_def)
  have r': "emptyActions ''data-actions'' = Some []"
    by (simp add: emptyActions_def elementOf_def)
  have n': "([]::string) = [] \<or> rejectsEarly [] = None"
    by simp
  have t': "attrOr emptyActions ''data-title'' ''Admin Portal'' = ''Dashboard''"
    by (simp add: emptyActions_def elementOf_def attrOr_def)
  from invalid_actions_warn_and_continue [where root = brokenActions and parse = rejectsEarly
      and base = "''/base''", OF r n] p t
  have x: "rejectsEarly ''label: Export'' = None
   \<and> snd (adminHeader_parseConfig rejectsEarly brokenActions)
       = [Warn ''Failed to parse header actions:'']
   \<and> adm_actions (fst (adminHeader_parseConfig rejectsEarly brokenActions)) = EmptyList
   \<and> adm_title (fst (adminHeader_parseConfig rejectsEarly brokenActions)) = ''Dashboard''
   \<and> snd (universalHeader_readConfig rejectsEarly brokenActions ''/base'')
       = [Warn ''Failed to parse data-actions:'']
   \<and> cfg_title (fst (universalHeader_readConfig rejectsEarly brokenActions ''/base'')) = ''Dashboard''"
    by simp
  from invalid_actions_warn_and_continue [where root = emptyActions and parse = rejectsEarly
      and base = "''/base''", OF r' n'] t'
  have y: "snd (adminHeader_parseConfig rejectsEarly emptyActions) = []
   \<and> adm_actions (fst (adminHeader_parseConfig rejectsEarly emptyActions)) = EmptyList
   \<and> adm_title (fst (adminHeader_parseConfig rejectsEarly emptyActions)) = ''Dashboard''
   \<and> snd (universalHeader_readConfig rejectsEarly emptyActions ''/base'') = []
   \<and> cfg_actions (fst (universalHeader_readConfig rejectsEarly emptyActions ''/base''))
       = EmptyList"
    by simp
  from x y show ?thesis
    by simp
qed

text \<open>
  The claim as stated fails for the empty value: it is not valid JSON, and the guard
  \<open>if (actionsData)\<close> skips the parse, so no warning is logged.
\<close>

theorem empty_actions_no_warning_counterexample:
  "rejectsEarly [] = None
   \<and> snd (adminHeader_parseConfig rejectsEarly
            (elementOf [(''data-title'', ''Dashboard''), (''data-actions'', [])])) = []
   \<and> snd (universalHeader_readConfig rejectsEarly
            (elementOf [(''data-title'', ''Dashboard''), (''data-actions'', [])]) ''/base'') = []"
  by (simp add: rejectsEarly_def adminHeader_parseConfig_def universalHeader_readConfig_def
      elementOf_def)

end
